theory Spec2Isabelle
  imports Complex_Main "HOL-Library.Log_Nat"
begin

section \<open>Python values\<close>

text \<open>
  The client moves JSON documents around as plain Python objects: \<^verbatim>\<open>response.json()\<close>
  returns \<^verbatim>\<open>None\<close>, a bool, a number, a \<^verbatim>\<open>str\<close>, a list or a dict, and
  \<^verbatim>\<open>model_dump()\<close> returns a dict that may also hold \<^verbatim>\<open>datetime\<close> objects.
  A dict is an association list read with \<open>map_of\<close> (the first binding of a key is the
  dict's). A \<^verbatim>\<open>str\<close> is a \<open>string\<close>; one \<open>char\<close> stands for one code point, so
  \<open>length\<close> is Python's \<^verbatim>\<open>len\<close>. A finite \<^verbatim>\<open>float\<close> is the rational number it
  denotes; the arithmetic on floats rounds, see below. A \<^verbatim>\<open>datetime\<close> object is the
  instant it denotes, in seconds since the epoch.
\<close>

datatype datetime = Datetime int

datatype pyval =
    PNone
  | PBool bool
  | PInt int
  | PFloat rat
  | PStr string
  | PList "pyval list"
  | PDict "(string \<times> pyval) list"
  | PDatetime datetime

type_synonym pydict = "(string \<times> pyval) list"

text \<open>\<^verbatim>\<open>d.get(key, default)\<close>\<close>

definition dict_get :: "pydict \<Rightarrow> string \<Rightarrow> pyval \<Rightarrow> pyval" where
  "dict_get d k dflt = (case map_of d k of None \<Rightarrow> dflt | Some v \<Rightarrow> v)"

text \<open>The name Python prints for the type of a value, as in the message of an
  \<^verbatim>\<open>AttributeError\<close> or \<^verbatim>\<open>TypeError\<close>.\<close>

fun type_name :: "pyval \<Rightarrow> string" where
  "type_name PNone = ''NoneType''"
| "type_name (PBool _) = ''bool''"
| "type_name (PInt _) = ''int''"
| "type_name (PFloat _) = ''float''"
| "type_name (PStr _) = ''str''"
| "type_name (PList _) = ''list''"
| "type_name (PDict _) = ''dict''"
| "type_name (PDatetime _) = ''datetime.datetime''"

subsection \<open>Float arithmetic\<close>

text \<open>
  A Python \<^verbatim>\<open>float\<close> is an IEEE 754 binary64 number: a finite one is \<open>m * 2 ^ e\<close> with
  \<open>\<bar>m\<bar> < 2 ^ 53\<close> and \<open>- 1074 \<le> e\<close>. An arithmetic operation returns the exact
  result rounded to the nearest such number, a tie going to the even \<open>m\<close>. Results of
  magnitude \<open>2 ^ 1024\<close> and more overflow and are not modelled: the quotient and the
  product computed below stay far under it.
\<close>

text \<open>The nearest integer, a tie going to the even one.\<close>

definition round_half_even :: "rat \<Rightarrow> int" where
  "round_half_even x =
     (let n = \<lfloor>x\<rfloor>; d = x - of_int n
      in if d < 1 / 2 then n else if 1 / 2 < d then n + 1 else if even n then n else n + 1)"

text \<open>The exponent of the leading bit of a positive number: \<open>2 ^ ilog2 x \<le> x < 2 ^ (ilog2 x + 1)\<close>.\<close>

definition ilog2 :: "rat \<Rightarrow> int" where
  "ilog2 x =
     (case quotient_of x of (p, q) \<Rightarrow>
        let k = bitlen p - bitlen q in if 2 powi k \<le> x then k else k - 1)"

text \<open>Rounding to binary64: 53 significant bits, and no bit below \<open>2 ^ - 1074\<close>.\<close>

definition float_round :: "rat \<Rightarrow> rat" where
  "float_round x =
     (if x = 0 then 0
      else let e = max (ilog2 \<bar>x\<bar> - 52) (- 1074)
           in of_int (round_half_even (x / 2 powi e)) * 2 powi e)"

text \<open>\<^verbatim>\<open>a / b\<close> on two \<^verbatim>\<open>int\<close>s is the float nearest to the exact quotient (and a
  \<^verbatim>\<open>ZeroDivisionError\<close> when \<open>b\<close> is 0: the one division below has the length of a non-empty
  list as its divisor). \<^verbatim>\<open>x * y\<close> on floats is the float nearest to the exact product; an
  \<^verbatim>\<open>int\<close> operand such as 100 is converted first, exactly.\<close>

definition int_truediv :: "int \<Rightarrow> int \<Rightarrow> rat" where
  "int_truediv a b = float_round (of_int a / of_int b)"

definition float_mul :: "rat \<Rightarrow> rat \<Rightarrow> rat" where
  "float_mul x y = float_round (x * y)"

section \<open>Domain model (models/task.py, models/subtask.py)\<close>

datatype TaskStatus = PENDING | IN_PROGRESS | DONE | DEFERRED | CANCELLED | BLOCKED

datatype TaskPriority = LOW | MEDIUM | HIGH | CRITICAL

fun TaskStatus_value :: "TaskStatus \<Rightarrow> string" where
  "TaskStatus_value PENDING = ''pending''"
| "TaskStatus_value IN_PROGRESS = ''in-progress''"
| "TaskStatus_value DONE = ''done''"
| "TaskStatus_value DEFERRED = ''deferred''"
| "TaskStatus_value CANCELLED = ''cancelled''"
| "TaskStatus_value BLOCKED = ''blocked''"

fun TaskPriority_value :: "TaskPriority \<Rightarrow> string" where
  "TaskPriority_value LOW = ''low''"
| "TaskPriority_value MEDIUM = ''medium''"
| "TaskPriority_value HIGH = ''high''"
| "TaskPriority_value CRITICAL = ''critical''"

record SubTask =
  st_id :: string
  st_parent_id :: string
  st_title :: string
  st_description :: "string option"
  st_status :: string
  st_created_at :: datetime
  st_updated_at :: datetime
  st_metadata :: "pydict option"

record Task =
  t_id :: string
  t_title :: string
  t_description :: "string option"
  t_status :: TaskStatus
  t_priority :: TaskPriority
  t_created_at :: datetime
  t_updated_at :: datetime
  t_subtasks :: "SubTask list"
  t_project_id :: "string option"
  t_account_id :: "string option"
  t_metadata :: "pydict option"

subsection \<open>Derived operations\<close>

definition SubTask_is_completed :: "SubTask \<Rightarrow> bool" where
  "SubTask_is_completed st = (st_status st = ''done'')"

definition SubTask_is_active :: "SubTask \<Rightarrow> bool" where
  "SubTask_is_active st = (st_status st \<in> set [''pending'', ''in-progress''])"

definition Task_is_completed :: "Task \<Rightarrow> bool" where
  "Task_is_completed t = (t_status t = DONE)"

definition Task_is_active :: "Task \<Rightarrow> bool" where
  "Task_is_active t = (t_status t \<in> set [PENDING, IN_PROGRESS])"

definition Task_is_blocked :: "Task \<Rightarrow> bool" where
  "Task_is_blocked t = (t_status t = BLOCKED)"

definition get_subtask_count :: "Task \<Rightarrow> int" where
  "get_subtask_count t = int (length (t_subtasks t))"

text \<open>\<^verbatim>\<open>sum(1 for st in self.subtasks if st.is_completed())\<close>\<close>

definition get_completed_subtask_count :: "Task \<Rightarrow> int" where
  "get_completed_subtask_count t =
     sum_list (map (\<lambda>st. 1) (filter SubTask_is_completed (t_subtasks t)))"

definition get_completion_percentage :: "Task \<Rightarrow> rat" where
  "get_completion_percentage t =
     (if t_subtasks t = [] then (if Task_is_completed t then 100 else 0)
      else
        let completed = get_completed_subtask_count t
        in float_mul (int_truediv completed (int (length (t_subtasks t)))) 100)"

section \<open>Error taxonomy (exceptions/base.py, auth.py, api.py, validation.py)\<close>

datatype sdk_class =
    TaskMasterError
  | AuthenticationError
  | TokenExpiredError
  | InvalidTokenError
  | MissingCredentialsError
  | APIError
  | BadRequestError
  | NotFoundError
  | ConflictError
  | ServerError
  | RateLimitError
  | ServiceUnavailableError
  | ValidationError

text \<open>The base class each class is declared with; \<open>TaskMasterError\<close> derives from
  Python's \<^verbatim>\<open>Exception\<close>.\<close>

fun sdk_base :: "sdk_class \<Rightarrow> sdk_class option" where
  "sdk_base TaskMasterError = None"
| "sdk_base AuthenticationError = Some TaskMasterError"
| "sdk_base TokenExpiredError = Some AuthenticationError"
| "sdk_base InvalidTokenError = Some AuthenticationError"
| "sdk_base MissingCredentialsError = Some AuthenticationError"
| "sdk_base APIError = Some TaskMasterError"
| "sdk_base BadRequestError = Some APIError"
| "sdk_base NotFoundError = Some APIError"
| "sdk_base ConflictError = Some APIError"
| "sdk_base ServerError = Some APIError"
| "sdk_base RateLimitError = Some APIError"
| "sdk_base ServiceUnavailableError = Some APIError"
| "sdk_base ValidationError = Some TaskMasterError"

text \<open>\<^verbatim>\<open>issubclass(c, d)\<close>: the hierarchy is two levels deep.\<close>

definition sdk_issubclass :: "sdk_class \<Rightarrow> sdk_class \<Rightarrow> bool" where
  "sdk_issubclass c d =
     (c = d \<or> sdk_base c = Some d
      \<or> (case sdk_base c of None \<Rightarrow> False | Some b \<Rightarrow> sdk_base b = Some d))"

text \<open>
  An instance of a taxonomy class. \<open>err_message\<close> and \<open>err_code\<close> are Python values,
  since the pipeline fills them from the response body; \<open>response_data\<close> is the
  attribute only \<open>APIError\<close> and its subclasses set.
\<close>

record sdk_error =
  err_class :: sdk_class
  err_message :: pyval
  err_code :: pyval
  err_status_code :: "int option"
  response_data :: "pydict option"

definition TaskMasterError_init :: "sdk_class \<Rightarrow> pyval \<Rightarrow> pyval \<Rightarrow> int option \<Rightarrow> sdk_error" where
  "TaskMasterError_init c message code status =
     \<lparr>err_class = c, err_message = message, err_code = code,
      err_status_code = status, response_data = None\<rparr>"

definition AuthenticationError_init :: "sdk_class \<Rightarrow> pyval \<Rightarrow> sdk_error" where
  "AuthenticationError_init c message =
     TaskMasterError_init c message (PStr ''AUTH_ERROR'') (Some 401)"



text \<open>\<^verbatim>\<open>self.response_data = response_data or {}\<close>\<close>

definition APIError_init :: "sdk_class \<Rightarrow> pyval \<Rightarrow> int \<Rightarrow> pyval \<Rightarrow> pydict option \<Rightarrow> sdk_error" where
  "APIError_init c message status code rd =
     (TaskMasterError_init c message code (Some status))
       \<lparr>response_data := Some (case rd of None \<Rightarrow> [] | Some d \<Rightarrow> d)\<rparr>"

definition BadRequestError_init :: "pyval \<Rightarrow> pydict option \<Rightarrow> sdk_error" where
  "BadRequestError_init message rd = APIError_init BadRequestError message 400 (PStr ''BAD_REQUEST'') rd"

definition NotFoundError_init :: "pyval \<Rightarrow> pydict option \<Rightarrow> sdk_error" where
  "NotFoundError_init message rd = APIError_init NotFoundError message 404 (PStr ''NOT_FOUND'') rd"

definition ConflictError_init :: "pyval \<Rightarrow> pydict option \<Rightarrow> sdk_error" where
  "ConflictError_init message rd = APIError_init ConflictError message 409 (PStr ''CONFLICT'') rd"

definition ServerError_init :: "pyval \<Rightarrow> pydict option \<Rightarrow> sdk_error" where
  "ServerError_init message rd = APIError_init ServerError message 500 (PStr ''SERVER_ERROR'') rd"

definition RateLimitError_init :: "pyval \<Rightarrow> pydict option \<Rightarrow> sdk_error" where
  "RateLimitError_init message rd = APIError_init RateLimitError message 429 (PStr ''RATE_LIMITED'') rd"

definition ServiceUnavailableError_init :: "pyval \<Rightarrow> pydict option \<Rightarrow> sdk_error" where
  "ServiceUnavailableError_init message rd =
     APIError_init ServiceUnavailableError message 503 (PStr ''SERVICE_UNAVAILABLE'') rd"

subsection \<open>Exceptions of the libraries and of the interpreter\<close>

text \<open>
  The classes of \<^verbatim>\<open>requests.exceptions\<close> the pipeline can meet; every one derives
  from \<^verbatim>\<open>requests.exceptions.RequestException\<close>. \<open>JSONDecodeError\<close> is the class
  \<^verbatim>\<open>response.json()\<close> raises on a body that is not JSON.
\<close>

datatype requests_class =
    RequestException
  | ConnectionError
  | Timeout
  | RetryError
  | JSONDecodeError

datatype builtin_class = ValueError | TypeError | AttributeError

text \<open>One entry of \<^verbatim>\<open>pydantic.ValidationError.errors()\<close>: the error type, the
  location (field names and list indices) and the offending input.\<close>

datatype loc_item = LocField string | LocIndex nat

record error_detail =
  err_type :: string
  err_loc :: "loc_item list"
  err_input :: pyval

text \<open>
  The exceptions of PyJWT that \<^verbatim>\<open>jwt.decode\<close> raises. The root is \<^verbatim>\<open>jwt.PyJWTError\<close>;
  \<^verbatim>\<open>jwt.InvalidTokenError\<close> and the classes derived from it report a failure of the
  token, \<^verbatim>\<open>jwt.InvalidKeyError\<close> reports a key the algorithm cannot use and derives
  from the root, not from \<^verbatim>\<open>jwt.InvalidTokenError\<close>.
\<close>

datatype jwt_class =
    jwt_PyJWTError
  | jwt_InvalidTokenError
  | jwt_DecodeError
  | jwt_InvalidSignatureError
  | jwt_ExpiredSignatureError
  | jwt_InvalidAudienceError
  | jwt_InvalidIssuerError
  | jwt_InvalidIssuedAtError
  | jwt_ImmatureSignatureError
  | jwt_InvalidKeyError
  | jwt_InvalidAlgorithmError
  | jwt_MissingRequiredClaimError

fun jwt_base :: "jwt_class \<Rightarrow> jwt_class option" where
  "jwt_base jwt_PyJWTError = None"
| "jwt_base jwt_InvalidTokenError = Some jwt_PyJWTError"
| "jwt_base jwt_DecodeError = Some jwt_InvalidTokenError"
| "jwt_base jwt_InvalidSignatureError = Some jwt_DecodeError"
| "jwt_base jwt_ExpiredSignatureError = Some jwt_InvalidTokenError"
| "jwt_base jwt_InvalidAudienceError = Some jwt_InvalidTokenError"
| "jwt_base jwt_InvalidIssuerError = Some jwt_InvalidTokenError"
| "jwt_base jwt_InvalidIssuedAtError = Some jwt_InvalidTokenError"
| "jwt_base jwt_ImmatureSignatureError = Some jwt_InvalidTokenError"
| "jwt_base jwt_InvalidKeyError = Some jwt_PyJWTError"
| "jwt_base jwt_InvalidAlgorithmError = Some jwt_InvalidTokenError"
| "jwt_base jwt_MissingRequiredClaimError = Some jwt_InvalidTokenError"

text \<open>\<^verbatim>\<open>issubclass(c, d)\<close>: the hierarchy is three levels deep.\<close>

definition jwt_issubclass :: "jwt_class \<Rightarrow> jwt_class \<Rightarrow> bool" where
  "jwt_issubclass c d =
     (c = d
      \<or> (case jwt_base c of
            None \<Rightarrow> False
          | Some b \<Rightarrow>
              b = d
              \<or> (case jwt_base b of
                    None \<Rightarrow> False
                  | Some b' \<Rightarrow> b' = d \<or> jwt_base b' = Some d)))"

datatype py_exception =
    Sdk sdk_error
  | Requests requests_class string
  | Jwt jwt_class string
  | Builtin builtin_class string
  | PydanticValidationError "error_detail list"

text \<open>\<^verbatim>\<open>isinstance(e, c)\<close> for a class \<open>c\<close> of the SDK's taxonomy. pydantic's
  \<^verbatim>\<open>ValidationError\<close> derives from \<^verbatim>\<open>ValueError\<close>, not from \<open>TaskMasterError\<close>.\<close>

fun isinstance_sdk :: "py_exception \<Rightarrow> sdk_class \<Rightarrow> bool" where
  "isinstance_sdk (Sdk e) c = sdk_issubclass (err_class e) c"
| "isinstance_sdk _ c = False"

section \<open>Parsing and projection (models/base.py)\<close>

text \<open>
  \<^verbatim>\<open>from_api_response\<close> is \<^verbatim>\<open>cls(**data)\<close>: pydantic validates the keyword arguments
  against the fields the model class declares, in the order of declaration, collects
  the errors of all fields and raises its \<^verbatim>\<open>ValidationError\<close> when there is one. A
  key that names no field is ignored (the models keep pydantic's default for extra
  fields). Two conversions of pydantic are parameters of the model: how a value is
  read as a \<^verbatim>\<open>datetime\<close> (the error type on failure), and how the free-form
  \<^verbatim>\<open>metadata\<close> dict is dumped.
\<close>

record pydantic =
  validate_datetime :: "pyval \<Rightarrow> string + datetime"
  serialize_dict :: "pydict \<Rightarrow> pydict"

type_synonym 'a validated = "error_detail list + 'a"

definition field_error :: "string \<Rightarrow> pyval \<Rightarrow> error_detail list" where
  "field_error ty v = [\<lparr>err_type = ty, err_loc = [], err_input = v\<rparr>]"

text \<open>\<^verbatim>\<open>str\<close>\<close>

definition validate_str :: "pyval \<Rightarrow> string validated" where
  "validate_str v = (case v of PStr s \<Rightarrow> Inr s | _ \<Rightarrow> Inl (field_error ''string_type'' v))"

text \<open>\<^verbatim>\<open>str\<close> with \<^verbatim>\<open>Field(min_length=lo, max_length=hi)\<close>\<close>

definition validate_constrained_str :: "nat \<Rightarrow> nat \<Rightarrow> pyval \<Rightarrow> string validated" where
  "validate_constrained_str lo hi v =
     (case validate_str v of
        Inl es \<Rightarrow> Inl es
      | Inr s \<Rightarrow>
          if length s < lo then Inl (field_error ''string_too_short'' v)
          else if hi < length s then Inl (field_error ''string_too_long'' v)
          else Inr s)"

text \<open>\<^verbatim>\<open>Optional[T]\<close>\<close>

definition validate_optional :: "(pyval \<Rightarrow> 'a validated) \<Rightarrow> pyval \<Rightarrow> 'a option validated" where
  "validate_optional f v =
     (if v = PNone then Inr None
      else (case f v of Inl es \<Rightarrow> Inl es | Inr x \<Rightarrow> Inr (Some x)))"

text \<open>An enumeration with string values: the member whose value the input is.\<close>

definition TaskStatus_members :: "TaskStatus list" where
  "TaskStatus_members = [PENDING, IN_PROGRESS, DONE, DEFERRED, CANCELLED, BLOCKED]"

definition TaskPriority_members :: "TaskPriority list" where
  "TaskPriority_members = [LOW, MEDIUM, HIGH, CRITICAL]"

definition validate_enum :: "'a list \<Rightarrow> ('a \<Rightarrow> string) \<Rightarrow> pyval \<Rightarrow> 'a validated" where
  "validate_enum members val v =
     (case v of
        PStr s \<Rightarrow>
          (case find (\<lambda>m. val m = s) members of
             Some m \<Rightarrow> Inr m
           | None \<Rightarrow> Inl (field_error ''enum'' v))
      | _ \<Rightarrow> Inl (field_error ''enum'' v))"

text \<open>\<^verbatim>\<open>datetime\<close>\<close>

definition validate_dt :: "pydantic \<Rightarrow> pyval \<Rightarrow> datetime validated" where
  "validate_dt L v =
     (case validate_datetime L v of Inl ty \<Rightarrow> Inl (field_error ty v) | Inr dt \<Rightarrow> Inr dt)"

text \<open>\<^verbatim>\<open>dict\<close>\<close>

definition validate_dict :: "pyval \<Rightarrow> pydict validated" where
  "validate_dict v = (case v of PDict d \<Rightarrow> Inr d | _ \<Rightarrow> Inl (field_error ''dict_type'' v))"

text \<open>The errors of a field or of a list item carry its name or index in front of
  their location.\<close>

definition at_loc :: "loc_item \<Rightarrow> 'a validated \<Rightarrow> 'a validated" where
  "at_loc l r =
     (case r of
        Inl es \<Rightarrow> Inl (map (\<lambda>e. e\<lparr>err_loc := l # err_loc e\<rparr>) es)
      | Inr x \<Rightarrow> Inr x)"

text \<open>A field without a default: when the key is absent the error is \<open>missing\<close>, with
  the whole input as its input.\<close>

definition required_field :: "pydict \<Rightarrow> string \<Rightarrow> (pyval \<Rightarrow> 'a validated) \<Rightarrow> 'a validated" where
  "required_field d name f =
     (case map_of d name of
        None \<Rightarrow> Inl [\<lparr>err_type = ''missing'', err_loc = [LocField name], err_input = PDict d\<rparr>]
      | Some v \<Rightarrow> at_loc (LocField name) (f v))"

text \<open>A field with a default: the default is taken unvalidated when the key is
  absent.\<close>

definition optional_field :: "pydict \<Rightarrow> string \<Rightarrow> 'a \<Rightarrow> (pyval \<Rightarrow> 'a validated) \<Rightarrow> 'a validated" where
  "optional_field d name dflt f =
     (case map_of d name of
        None \<Rightarrow> Inr dflt
      | Some v \<Rightarrow> at_loc (LocField name) (f v))"

text \<open>Validation goes on after a failed field: the errors of all fields are
  collected, in order.\<close>

fun collect :: "('a \<Rightarrow> 'b) validated \<Rightarrow> 'a validated \<Rightarrow> 'b validated" where
  "collect (Inr f) (Inr x) = Inr (f x)"
| "collect (Inr f) (Inl es) = Inl es"
| "collect (Inl es) (Inr x) = Inl es"
| "collect (Inl es) (Inl es') = Inl (es @ es')"

definition SubTask_validate :: "pydantic \<Rightarrow> pydict \<Rightarrow> SubTask validated" where
  "SubTask_validate L d =
     collect (collect (collect (collect (collect (collect (collect (collect
       (Inr (\<lambda>i p t de s c u m.
          \<lparr>st_id = i, st_parent_id = p, st_title = t, st_description = de, st_status = s,
           st_created_at = c, st_updated_at = u, st_metadata = m\<rparr>))
       (required_field d ''id'' validate_str))
       (required_field d ''parent_id'' validate_str))
       (required_field d ''title'' (validate_constrained_str 1 255)))
       (optional_field d ''description'' None (validate_optional validate_str)))
       (optional_field d ''status'' ''pending'' validate_str))
       (required_field d ''created_at'' (validate_dt L)))
       (required_field d ''updated_at'' (validate_dt L)))
       (optional_field d ''metadata'' None (validate_optional validate_dict))"

text \<open>\<^verbatim>\<open>List[SubTask]\<close>: every item is a dict of a subtask's fields.\<close>

definition validate_SubTask :: "pydantic \<Rightarrow> pyval \<Rightarrow> SubTask validated" where
  "validate_SubTask L v =
     (case v of PDict d \<Rightarrow> SubTask_validate L d | _ \<Rightarrow> Inl (field_error ''model_type'' v))"

fun validate_items :: "pydantic \<Rightarrow> nat \<Rightarrow> pyval list \<Rightarrow> SubTask list validated" where
  "validate_items L i [] = Inr []"
| "validate_items L i (v # vs) =
     collect (collect (Inr (#)) (at_loc (LocIndex i) (validate_SubTask L v)))
       (validate_items L (Suc i) vs)"

definition validate_SubTask_list :: "pydantic \<Rightarrow> pyval \<Rightarrow> SubTask list validated" where
  "validate_SubTask_list L v =
     (case v of PList vs \<Rightarrow> validate_items L 0 vs | _ \<Rightarrow> Inl (field_error ''list_type'' v))"

definition Task_validate :: "pydantic \<Rightarrow> pydict \<Rightarrow> Task validated" where
  "Task_validate L d =
     collect (collect (collect (collect (collect (collect (collect (collect (collect
     (collect (collect
       (Inr (\<lambda>i t de s p c u sts pr ac m.
          \<lparr>t_id = i, t_title = t, t_description = de, t_status = s, t_priority = p,
           t_created_at = c, t_updated_at = u, t_subtasks = sts, t_project_id = pr,
           t_account_id = ac, t_metadata = m\<rparr>))
       (required_field d ''id'' validate_str))
       (required_field d ''title'' (validate_constrained_str 1 255)))
       (optional_field d ''description'' None (validate_optional validate_str)))
       (optional_field d ''status'' PENDING (validate_enum TaskStatus_members TaskStatus_value)))
       (optional_field d ''priority'' MEDIUM (validate_enum TaskPriority_members TaskPriority_value)))
       (required_field d ''created_at'' (validate_dt L)))
       (required_field d ''updated_at'' (validate_dt L)))
       (optional_field d ''subtasks'' [] (validate_SubTask_list L)))
       (optional_field d ''project_id'' None (validate_optional validate_str)))
       (optional_field d ''account_id'' None (validate_optional validate_str)))
       (optional_field d ''metadata'' None (validate_optional validate_dict))"

text \<open>The fields the two model classes declare.\<close>

definition SubTask_fields :: "string list" where
  "SubTask_fields =
     [''id'', ''parent_id'', ''title'', ''description'', ''status'', ''created_at'', ''updated_at'',
      ''metadata'']"

definition Task_fields :: "string list" where
  "Task_fields =
     [''id'', ''title'', ''description'', ''status'', ''priority'', ''created_at'', ''updated_at'',
      ''subtasks'', ''project_id'', ''account_id'', ''metadata'']"

text \<open>The two readings of a validation result: its errors, and its value.\<close>

fun errors :: "'a validated \<Rightarrow> error_detail list" where
  "errors (Inl es) = es"
| "errors (Inr x) = []"

fun value_of :: "'a validated \<Rightarrow> 'a option" where
  "value_of (Inl es) = None"
| "value_of (Inr x) = Some x"

text \<open>A failed validation names at least one error.\<close>

definition proper :: "'a validated \<Rightarrow> bool" where
  "proper r = (case r of Inl es \<Rightarrow> es \<noteq> [] | Inr x \<Rightarrow> True)"

text \<open>\<^verbatim>\<open>cls(**data)\<close>: an argument that is not a mapping is a \<^verbatim>\<open>TypeError\<close> of the
  call itself.\<close>

definition from_api_response :: "(pydict \<Rightarrow> 'a validated) \<Rightarrow> pyval \<Rightarrow> py_exception + 'a" where
  "from_api_response cls data =
     (case data of
        PDict d \<Rightarrow>
          (case cls d of Inl es \<Rightarrow> Inl (PydanticValidationError es) | Inr x \<Rightarrow> Inr x)
      | _ \<Rightarrow> Inl (Builtin TypeError (''argument after ** must be a mapping, not '' @ type_name data)))"

definition Task_from_api_response :: "pydantic \<Rightarrow> pyval \<Rightarrow> py_exception + Task" where
  "Task_from_api_response L data = from_api_response (Task_validate L) data"

definition SubTask_from_api_response :: "pydantic \<Rightarrow> pyval \<Rightarrow> py_exception + SubTask" where
  "SubTask_from_api_response L data = from_api_response (SubTask_validate L) data"

text \<open>The call raised pydantic's \<^verbatim>\<open>ValidationError\<close>, and \<open>e\<close> is one of its error
  records.\<close>

definition raises_validation :: "py_exception + 'a \<Rightarrow> error_detail \<Rightarrow> bool" where
  "raises_validation r e =
     (case r of Inl (PydanticValidationError es) \<Rightarrow> e \<in> set es | _ \<Rightarrow> False)"

text \<open>
  \<^verbatim>\<open>to_api_request\<close> is \<^verbatim>\<open>model_dump(by_alias=True, exclude_none=True)\<close>: the fields in
  the order of declaration (no field declares an alias), without those whose value is
  \<^verbatim>\<open>None\<close>. The dump is in Python mode: a \<^verbatim>\<open>datetime\<close> stays a \<^verbatim>\<open>datetime\<close> object.
  \<open>TaskStatus\<close> and \<open>TaskPriority\<close> derive from \<^verbatim>\<open>str\<close>: a member is equal to its value,
  and is written as the \<^verbatim>\<open>str\<close> it is.
\<close>

definition exclude_none :: "(string \<times> pyval option) list \<Rightarrow> pydict" where
  "exclude_none fs = List.map_filter (\<lambda>(k, v). map_option (Pair k) v) fs"

definition SubTask_to_api_request :: "pydantic \<Rightarrow> SubTask \<Rightarrow> pydict" where
  "SubTask_to_api_request L s =
     exclude_none
       [(''id'', Some (PStr (st_id s))),
        (''parent_id'', Some (PStr (st_parent_id s))),
        (''title'', Some (PStr (st_title s))),
        (''description'', map_option PStr (st_description s)),
        (''status'', Some (PStr (st_status s))),
        (''created_at'', Some (PDatetime (st_created_at s))),
        (''updated_at'', Some (PDatetime (st_updated_at s))),
        (''metadata'', map_option (\<lambda>m. PDict (serialize_dict L m)) (st_metadata s))]"

definition Task_to_api_request :: "pydantic \<Rightarrow> Task \<Rightarrow> pydict" where
  "Task_to_api_request L t =
     exclude_none
       [(''id'', Some (PStr (t_id t))),
        (''title'', Some (PStr (t_title t))),
        (''description'', map_option PStr (t_description t)),
        (''status'', Some (PStr (TaskStatus_value (t_status t)))),
        (''priority'', Some (PStr (TaskPriority_value (t_priority t)))),
        (''created_at'', Some (PDatetime (t_created_at t))),
        (''updated_at'', Some (PDatetime (t_updated_at t))),
        (''subtasks'', Some (PList (map (\<lambda>s. PDict (SubTask_to_api_request L s)) (t_subtasks t)))),
        (''project_id'', map_option PStr (t_project_id t)),
        (''account_id'', map_option PStr (t_account_id t)),
        (''metadata'', map_option (\<lambda>m. PDict (serialize_dict L m)) (t_metadata t))]"

section \<open>Request pipeline (client.py)\<close>

record TaskMasterClient =
  api_url :: string
  token :: "string option"
  timeout :: int
  max_retries :: int
  retry_backoff :: rat

text \<open>\<^verbatim>\<open>s.rstrip(c)\<close>\<close>

definition rstrip :: "char \<Rightarrow> string \<Rightarrow> string" where
  "rstrip c s = rev (dropWhile (\<lambda>x. x = c) (rev s))"

definition TaskMasterClient_init ::
    "string \<Rightarrow> string option \<Rightarrow> int \<Rightarrow> int \<Rightarrow> rat \<Rightarrow> py_exception + TaskMasterClient" where
  "TaskMasterClient_init url tok tmo retries backoff =
     (if url = [] then Inl (Builtin ValueError ''api_url is required'')
      else Inr \<lparr>api_url = rstrip CHR ''/'' url, token = tok, timeout = tmo,
                max_retries = retries, retry_backoff = backoff\<rparr>)"

text \<open>The retry strategy \<^verbatim>\<open>_setup_session\<close> mounts on the session.\<close>

record Retry =
  total :: int
  backoff_factor :: rat
  status_forcelist :: "int list"
  allowed_methods :: "string list"

definition retry_strategy :: "TaskMasterClient \<Rightarrow> Retry" where
  "retry_strategy C =
     \<lparr>total = max_retries C, backoff_factor = retry_backoff C,
      status_forcelist = [429, 500, 502, 503, 504],
      allowed_methods = [''GET'', ''POST'', ''PUT'', ''PATCH'', ''DELETE'']\<rparr>"

text \<open>\<^verbatim>\<open>_get_headers\<close>: the header \<^verbatim>\<open>_setup_session\<close> sets, and the bearer token when
  one is configured (\<^verbatim>\<open>if self.token\<close>: neither \<^verbatim>\<open>None\<close> nor empty). The headers a
  \<^verbatim>\<open>requests.Session\<close> carries by default are left out.\<close>

definition get_headers :: "TaskMasterClient \<Rightarrow> (string \<times> string) list" where
  "get_headers C =
     [(''Content-Type'', ''application/json'')]
     @ (case token C of
          None \<Rightarrow> []
        | Some t \<Rightarrow> if t = [] then [] else [(''Authorization'', ''Bearer '' @ t)])"

record request =
  http_method :: string
  url :: string
  json_data :: "pydict option"
  params :: "pydict option"
  headers :: "(string \<times> string) list"
  req_timeout :: int

text \<open>A response as the pipeline reads it: the status, the reason phrase and what
  \<^verbatim>\<open>response.json()\<close> does (it raises on a body that is absent or not JSON).\<close>

record response =
  status_code :: int
  reason :: string
  json_result :: "py_exception + pyval"

text \<open>\<^verbatim>\<open>self.session.request(...)\<close>: the session raises or returns the terminal
  response.\<close>

type_synonym session = "request \<Rightarrow> py_exception + response"

text \<open>What calling \<^verbatim>\<open>.get\<close> raises on a value that is not a dict.\<close>

definition quoted :: "string \<Rightarrow> string" where
  "quoted s = [CHR 0x27] @ s @ [CHR 0x27]"

definition no_attribute_get :: "pyval \<Rightarrow> py_exception" where
  "no_attribute_get v =
     Builtin AttributeError (quoted (type_name v) @ '' object has no attribute '' @ quoted ''get'')"

definition handle_response_status :: "response \<Rightarrow> py_exception + unit" where
  "handle_response_status r =
     (if status_code r < 400 then Inr ()
      else
        (case (case json_result r of Inl _ \<Rightarrow> PDict [] | Inr v \<Rightarrow> v) of
           PDict error_data \<Rightarrow>
             (let message = dict_get error_data ''message'' (PStr (reason r));
                  code = dict_get error_data ''code'' (PStr ''UNKNOWN'')
              in if status_code r = 400 then
                   Inl (Sdk (BadRequestError_init message (Some error_data)))
                 else if status_code r = 401 then
                   Inl (Sdk (AuthenticationError_init AuthenticationError message))
                 else if status_code r = 404 then
                   Inl (Sdk (NotFoundError_init message (Some error_data)))
                 else if status_code r = 409 then
                   Inl (Sdk (ConflictError_init message (Some error_data)))
                 else if status_code r = 429 then
                   Inl (Sdk (RateLimitError_init message (Some error_data)))
                 else if status_code r \<ge> 500 then
                   (if status_code r = 503 then
                      Inl (Sdk (ServiceUnavailableError_init message (Some error_data)))
                    else Inl (Sdk (ServerError_init message (Some error_data))))
                 else
                   Inl (Sdk (APIError_init APIError message (status_code r) code (Some error_data))))
         | v \<Rightarrow> Inl (no_attribute_get v)))"

text \<open>The \<^verbatim>\<open>except requests.exceptions.RequestException as e\<close> clause of
  \<^verbatim>\<open>_make_request\<close>, which raises \<^verbatim>\<open>TaskMasterError(f"Request failed: {str(e)}")\<close>; an
  exception of any other class passes through it.\<close>

definition request_failed :: "py_exception \<Rightarrow> py_exception" where
  "request_failed e =
     (case e of
        Requests c m \<Rightarrow>
          Sdk (TaskMasterError_init TaskMasterError (PStr (''Request failed: '' @ m)) PNone None)
      | _ \<Rightarrow> e)"

definition build_request ::
    "TaskMasterClient \<Rightarrow> string \<Rightarrow> string \<Rightarrow> pydict option \<Rightarrow> pydict option \<Rightarrow> request" where
  "build_request C m endpoint data ps =
     \<lparr>http_method = m, url = api_url C @ endpoint, json_data = data, params = ps,
      headers = get_headers C, req_timeout = timeout C\<rparr>"

definition make_request ::
    "TaskMasterClient \<Rightarrow> session \<Rightarrow> string \<Rightarrow> string \<Rightarrow> pydict option \<Rightarrow> pydict option
     \<Rightarrow> py_exception + pyval" where
  "make_request C S m endpoint data ps =
     (case S (build_request C m endpoint data ps) of
        Inl e \<Rightarrow> Inl (request_failed e)
      | Inr r \<Rightarrow>
          (case handle_response_status r of
             Inl e \<Rightarrow> Inl (request_failed e)
           | Inr _ \<Rightarrow>
               (case json_result r of
                  Inl e \<Rightarrow> Inl (request_failed e)
                | Inr v \<Rightarrow> Inr v)))"

text \<open>\<^verbatim>\<open>response.get(key, default)\<close> on whatever \<^verbatim>\<open>_make_request\<close> returned.\<close>

definition response_get :: "pyval \<Rightarrow> string \<Rightarrow> pyval \<Rightarrow> py_exception + pyval" where
  "response_get v k dflt =
     (case v of PDict d \<Rightarrow> Inr (dict_get d k dflt) | _ \<Rightarrow> Inl (no_attribute_get v))"

text \<open>A list comprehension over a parser that may raise: the first exception ends it.\<close>

fun parse_each :: "('a \<Rightarrow> py_exception + 'b) \<Rightarrow> 'a list \<Rightarrow> py_exception + 'b list" where
  "parse_each f [] = Inr []"
| "parse_each f (x # xs) =
     (case f x of
        Inl e \<Rightarrow> Inl e
      | Inr y \<Rightarrow> (case parse_each f xs of Inl e \<Rightarrow> Inl e | Inr ys \<Rightarrow> Inr (y # ys)))"

definition unwrap_list ::
    "(pyval \<Rightarrow> py_exception + 'a) \<Rightarrow> py_exception + pyval \<Rightarrow> py_exception + 'a list" where
  "unwrap_list parse result =
     (case result of
        Inl e \<Rightarrow> Inl e
      | Inr resp \<Rightarrow>
          (case response_get resp ''data'' (PList []) of
             Inl e \<Rightarrow> Inl e
           | Inr data \<Rightarrow> (case data of PList items \<Rightarrow> parse_each parse items | _ \<Rightarrow> Inr [])))"

definition unwrap_entity ::
    "(pyval \<Rightarrow> py_exception + 'a) \<Rightarrow> py_exception + pyval \<Rightarrow> py_exception + 'a" where
  "unwrap_entity parse result =
     (case result of
        Inl e \<Rightarrow> Inl e
      | Inr resp \<Rightarrow>
          (case response_get resp ''data'' (PDict []) of
             Inl e \<Rightarrow> Inl e
           | Inr data \<Rightarrow> parse data))"

text \<open>\<^verbatim>\<open>if status: params["status"] = status\<close>\<close>

definition filter_param :: "string \<Rightarrow> string option \<Rightarrow> pydict" where
  "filter_param k v = (case v of None \<Rightarrow> [] | Some s \<Rightarrow> if s = [] then [] else [(k, PStr s)])"

definition list_tasks ::
    "TaskMasterClient \<Rightarrow> session \<Rightarrow> pydantic \<Rightarrow> string option \<Rightarrow> string option \<Rightarrow> int \<Rightarrow> int
     \<Rightarrow> py_exception + Task list" where
  "list_tasks C S L status priority limit offset =
     unwrap_list (Task_from_api_response L)
       (make_request C S ''GET'' ''/tasks'' None
          (Some ([(''limit'', PInt limit), (''offset'', PInt offset)]
                 @ filter_param ''status'' status @ filter_param ''priority'' priority)))"

definition get_task :: "TaskMasterClient \<Rightarrow> session \<Rightarrow> pydantic \<Rightarrow> string \<Rightarrow> py_exception + Task" where
  "get_task C S L task_id =
     unwrap_entity (Task_from_api_response L)
       (make_request C S ''GET'' (''/tasks/'' @ task_id) None None)"

definition create_task :: "TaskMasterClient \<Rightarrow> session \<Rightarrow> pydantic \<Rightarrow> pydict \<Rightarrow> py_exception + Task" where
  "create_task C S L task_data =
     unwrap_entity (Task_from_api_response L)
       (make_request C S ''POST'' ''/tasks'' (Some task_data) None)"

definition update_task ::
    "TaskMasterClient \<Rightarrow> session \<Rightarrow> pydantic \<Rightarrow> string \<Rightarrow> pydict \<Rightarrow> py_exception + Task" where
  "update_task C S L task_id task_data =
     unwrap_entity (Task_from_api_response L)
       (make_request C S ''PATCH'' (''/tasks/'' @ task_id) (Some task_data) None)"

definition delete_task :: "TaskMasterClient \<Rightarrow> session \<Rightarrow> string \<Rightarrow> py_exception + bool" where
  "delete_task C S task_id =
     (case make_request C S ''DELETE'' (''/tasks/'' @ task_id) None None of
        Inl e \<Rightarrow> Inl e
      | Inr _ \<Rightarrow> Inr True)"

definition list_subtasks ::
    "TaskMasterClient \<Rightarrow> session \<Rightarrow> pydantic \<Rightarrow> string \<Rightarrow> py_exception + SubTask list" where
  "list_subtasks C S L task_id =
     unwrap_list (SubTask_from_api_response L)
       (make_request C S ''GET'' (''/tasks/'' @ task_id @ ''/subtasks'') None None)"

definition get_subtask ::
    "TaskMasterClient \<Rightarrow> session \<Rightarrow> pydantic \<Rightarrow> string \<Rightarrow> string \<Rightarrow> py_exception + SubTask" where
  "get_subtask C S L task_id subtask_id =
     unwrap_entity (SubTask_from_api_response L)
       (make_request C S ''GET'' (''/tasks/'' @ task_id @ ''/subtasks/'' @ subtask_id) None None)"

definition create_subtask ::
    "TaskMasterClient \<Rightarrow> session \<Rightarrow> pydantic \<Rightarrow> string \<Rightarrow> pydict \<Rightarrow> py_exception + SubTask" where
  "create_subtask C S L task_id subtask_data =
     unwrap_entity (SubTask_from_api_response L)
       (make_request C S ''POST'' (''/tasks/'' @ task_id @ ''/subtasks'') (Some subtask_data) None)"

definition update_subtask ::
    "TaskMasterClient \<Rightarrow> session \<Rightarrow> pydantic \<Rightarrow> string \<Rightarrow> string \<Rightarrow> pydict
     \<Rightarrow> py_exception + SubTask" where
  "update_subtask C S L task_id subtask_id subtask_data =
     unwrap_entity (SubTask_from_api_response L)
       (make_request C S ''PATCH'' (''/tasks/'' @ task_id @ ''/subtasks/'' @ subtask_id)
          (Some subtask_data) None)"

definition delete_subtask ::
    "TaskMasterClient \<Rightarrow> session \<Rightarrow> string \<Rightarrow> string \<Rightarrow> py_exception + bool" where
  "delete_subtask C S task_id subtask_id =
     (case make_request C S ''DELETE'' (''/tasks/'' @ task_id @ ''/subtasks/'' @ subtask_id)
             None None of
        Inl e \<Rightarrow> Inl e
      | Inr _ \<Rightarrow> Inr True)"

subsection \<open>The retry loop of the transport\<close>

text \<open>
  Modelled from the spec: the loop that sends a request again is the transport
  library's (\<^verbatim>\<open>urllib3.util.retry.Retry\<close> behind \<^verbatim>\<open>requests.adapters.HTTPAdapter\<close>), which
  is not among the repository's sources. Spec 4.4, step 3: a request is sent again only
  after a transient outcome (no response at all, or a response whose status is in the
  strategy's list), for a method the strategy allows, and at most \<open>total\<close> times; the
  outcome after which nothing is sent again is the terminal one (step 4 and 5: a
  terminal response goes to the status dispatch, a terminal failure propagates).
  \<open>network\<close> gives what the \<open>i\<close>-th transmission of a request yields. \<open>send\<close> returns
  the terminal outcome and the number of transmissions made.
\<close>

datatype attempt = NoResponse requests_class string | Response response

type_synonym network = "request \<Rightarrow> nat \<Rightarrow> attempt"

definition is_retry :: "Retry \<Rightarrow> string \<Rightarrow> attempt \<Rightarrow> bool" where
  "is_retry cfg m a =
     (m \<in> set (allowed_methods cfg)
      \<and> (case a of
            NoResponse _ _ \<Rightarrow> True
          | Response r \<Rightarrow> status_code r \<in> set (status_forcelist cfg)))"

definition terminal :: "attempt \<Rightarrow> py_exception + response" where
  "terminal a = (case a of NoResponse c m \<Rightarrow> Inl (Requests c m) | Response r \<Rightarrow> Inr r)"

fun send :: "Retry \<Rightarrow> network \<Rightarrow> request \<Rightarrow> nat \<Rightarrow> nat \<Rightarrow> (py_exception + response) \<times> nat" where
  "send cfg N req i 0 = (terminal (N req i), Suc i)"
| "send cfg N req i (Suc k) =
     (if is_retry cfg (http_method req) (N req i) then send cfg N req (Suc i) k
      else (terminal (N req i), Suc i))"

definition session_send :: "TaskMasterClient \<Rightarrow> network \<Rightarrow> request \<Rightarrow> (py_exception + response) \<times> nat" where
  "session_send C N req = send (retry_strategy C) N req 0 (nat (total (retry_strategy C)))"

definition session_request :: "TaskMasterClient \<Rightarrow> network \<Rightarrow> session" where
  "session_request C N req = fst (session_send C N req)"

section \<open>Token inspector (auth/jwt_handler.py)\<close>

text \<open>
  PyJWT's \<^verbatim>\<open>jwt.decode(token, key, algorithms=..., options={"verify_signature": v})\<close> is
  a parameter of the model: given the token, the key, the allowed algorithms and
  whether the signature is verified, it returns the claims or raises.
\<close>

type_synonym jwt_library = "string \<Rightarrow> string \<Rightarrow> string list \<Rightarrow> bool \<Rightarrow> (jwt_class \<times> string) + pydict"

record JWTHandler =
  secret :: string
  algorithms :: "string list"
  verify :: bool

text \<open>\<^verbatim>\<open>self.algorithms = algorithms or ["HS256"]\<close>\<close>

definition JWTHandler_init :: "string \<Rightarrow> string list option \<Rightarrow> bool \<Rightarrow> JWTHandler" where
  "JWTHandler_init key algs v =
     \<lparr>secret = key,
      algorithms = (case algs of None \<Rightarrow> [''HS256''] | Some a \<Rightarrow> if a = [] then [''HS256''] else a),
      verify = v\<rparr>"


text \<open>\<^verbatim>\<open>is_expired\<close> calls \<^verbatim>\<open>jwt.decode\<close> without options: the signature is verified
  whatever \<^verbatim>\<open>self.verify\<close> says.\<close>

definition is_expired :: "jwt_library \<Rightarrow> JWTHandler \<Rightarrow> string \<Rightarrow> py_exception + bool" where
  "is_expired J h tok =
     (case J tok (secret h) (algorithms h) True of
        Inr payload \<Rightarrow> Inr False
      | Inl (c, m) \<Rightarrow>
          if jwt_issubclass c jwt_ExpiredSignatureError then Inr True
          else if jwt_issubclass c jwt_InvalidTokenError then Inr True
          else Inl (Jwt c m))"

section \<open>Example inputs\<close>

text \<open>The inputs of the concrete instances below: the fixtures of the repository's
  tests (tests/conftest.py), and stand-ins for the libraries.\<close>

definition example_pydantic :: pydantic where
  "example_pydantic =
     \<lparr>validate_datetime =
        (\<lambda>v. case v of
               PStr s \<Rightarrow> if s = ''2024-01-01T00:00:00Z'' then Inr (Datetime 1704067200)
                         else Inl ''datetime_from_date_parsing''
             | PDatetime dt \<Rightarrow> Inr dt
             | _ \<Rightarrow> Inl ''datetime_type''),
      serialize_dict = (\<lambda>m. m)\<rparr>"

definition sample_task_data :: pydict where
  "sample_task_data =
     [(''id'', PStr ''1''),
      (''title'', PStr ''Implement user authentication''),
      (''description'', PStr ''Set up JWT-based auth system''),
      (''status'', PStr ''pending''),
      (''priority'', PStr ''high''),
      (''created_at'', PStr ''2024-01-01T00:00:00Z''),
      (''updated_at'', PStr ''2024-01-01T00:00:00Z''),
      (''subtasks'', PList []),
      (''project_id'', PStr ''proj-1''),
      (''account_id'', PStr ''acc-1''),
      (''metadata'', PDict [(''tags'', PList [PStr ''auth'', PStr ''backend''])])]"

definition sample_subtask_data :: pydict where
  "sample_subtask_data =
     [(''id'', PStr ''1.1''),
      (''parent_id'', PStr ''1''),
      (''title'', PStr ''Create JWT token generator''),
      (''description'', PStr ''Implement token generation logic''),
      (''status'', PStr ''in-progress''),
      (''created_at'', PStr ''2024-01-01T00:00:00Z''),
      (''updated_at'', PStr ''2024-01-01T00:00:00Z'')]"

text \<open>The payload of \<^verbatim>\<open>test_response_with_null_optional_fields\<close> and the task it
  parses to.\<close>

definition null_fields_task_data :: pydict where
  "null_fields_task_data =
     [(''id'', PStr ''1''),
      (''title'', PStr ''Test''),
      (''description'', PNone),
      (''status'', PStr ''pending''),
      (''priority'', PStr ''medium''),
      (''created_at'', PStr ''2024-01-01T00:00:00Z''),
      (''updated_at'', PStr ''2024-01-01T00:00:00Z''),
      (''subtasks'', PList []),
      (''project_id'', PNone),
      (''account_id'', PNone),
      (''metadata'', PNone)]"

definition null_fields_task :: Task where
  "null_fields_task =
     \<lparr>t_id = ''1'', t_title = ''Test'', t_description = None, t_status = PENDING,
      t_priority = MEDIUM, t_created_at = Datetime 1704067200,
      t_updated_at = Datetime 1704067200, t_subtasks = [], t_project_id = None,
      t_account_id = None, t_metadata = None\<rparr>"

definition api_client :: TaskMasterClient where
  "api_client =
     \<lparr>api_url = ''http://localhost:3000/api/v1'', token = Some ''test-jwt-token'',
      timeout = 30, max_retries = 3, retry_backoff = 1\<rparr>"

text \<open>An RSA public key in PEM format, the key of a handler for RS256 tokens.\<close>

definition rsa_public_key :: string where
  "rsa_public_key =
     ''-----BEGIN PUBLIC KEY-----\<newline>MIIBIjANBgkqhkiG9w0BAQEFAAOCAQ8AMIIBCgKCAQEA\<newline>-----END PUBLIC KEY-----''"

text \<open>A stand-in for PyJWT on three tokens signed with HS256 and the secret
  \<open>secret1\<close>: one valid for another hour, one expired an hour ago, and one that is not
  a token. Without signature verification PyJWT checks no claim either. With it, the
  algorithm named by the token's header must be an allowed one, and HS256 refuses a
  key that is a PEM block before it compares signatures.\<close>

definition example_jwt :: jwt_library where
  "example_jwt tok key algs verify_signature =
     (if tok \<noteq> ''valid.token.secret1'' \<and> tok \<noteq> ''expired.token.secret1'' then
        Inl (jwt_DecodeError, ''Not enough segments'')
      else if \<not> verify_signature then Inr [(''sub'', PStr ''user-123'')]
      else if ''HS256'' \<notin> set algs then
        Inl (jwt_InvalidAlgorithmError, ''The specified alg value is not allowed'')
      else if take 11 key = ''-----BEGIN '' then
        Inl (jwt_InvalidKeyError,
             ''The specified key is an asymmetric key or x509 certificate and should not be used as an HMAC secret.'')
      else if key \<noteq> ''secret1'' then
        Inl (jwt_InvalidSignatureError, ''Signature verification failed'')
      else if tok = ''expired.token.secret1'' then
        Inl (jwt_ExpiredSignatureError, ''Signature has expired'')
      else Inr [(''sub'', PStr ''user-123'')])"

definition sample_subtask :: SubTask where
  "sample_subtask =
     \<lparr>st_id = ''1.1'', st_parent_id = ''1'', st_title = ''Create JWT token generator'',
      st_description = Some ''Implement token generation logic'', st_status = ''in-progress'',
      st_created_at = Datetime 1704067200, st_updated_at = Datetime 1704067200,
      st_metadata = None\<rparr>"

definition sample_task :: Task where
  "sample_task =
     \<lparr>t_id = ''1'', t_title = ''Implement user authentication'',
      t_description = Some ''Set up JWT-based auth system'', t_status = PENDING,
      t_priority = HIGH, t_created_at = Datetime 1704067200,
      t_updated_at = Datetime 1704067200, t_subtasks = [], t_project_id = Some ''proj-1'',
      t_account_id = Some ''acc-1'',
      t_metadata = Some [(''tags'', PList [PStr ''auth'', PStr ''backend''])]\<rparr>"

text \<open>The task of \<^verbatim>\<open>test_task_with_multiple_subtasks\<close>: five subtasks, the first two
  done, the others pending.\<close>

definition task_with_five_subtasks :: Task where
  "task_with_five_subtasks =
     sample_task
       \<lparr>t_status := IN_PROGRESS,
        t_subtasks :=
          [sample_subtask\<lparr>st_id := ''1.1'', st_title := ''Subtask 1'', st_status := ''done''\<rparr>,
           sample_subtask\<lparr>st_id := ''1.2'', st_title := ''Subtask 2'', st_status := ''done''\<rparr>,
           sample_subtask\<lparr>st_id := ''1.3'', st_title := ''Subtask 3'', st_status := ''pending''\<rparr>,
           sample_subtask\<lparr>st_id := ''1.4'', st_title := ''Subtask 4'', st_status := ''pending''\<rparr>,
           sample_subtask\<lparr>st_id := ''1.5'', st_title := ''Subtask 5'', st_status := ''pending''\<rparr>]\<rparr>"

text \<open>A task with twenty subtasks, eleven of them done; a task whose only subtask is
  in progress; a task whose only subtask is done.\<close>

definition task_with_twenty_subtasks :: Task where
  "task_with_twenty_subtasks =
     sample_task
       \<lparr>t_status := IN_PROGRESS,
        t_subtasks :=
          replicate 11 (sample_subtask\<lparr>st_status := ''done''\<rparr>)
          @ replicate 9 (sample_subtask\<lparr>st_status := ''pending''\<rparr>)\<rparr>"

definition task_started :: Task where
  "task_started = sample_task\<lparr>t_status := IN_PROGRESS, t_subtasks := [sample_subtask]\<rparr>"

definition task_finished :: Task where
  "task_finished =
     sample_task\<lparr>t_status := DONE, t_subtasks := [sample_subtask\<lparr>st_status := ''done''\<rparr>]\<rparr>"

section \<open>Properties\<close>

subsection \<open>Status predicates\<close>

text \<open>
  C8. For every Task, \<open>is_active()\<close> holds iff the status is pending or in-progress,
  \<open>is_completed()\<close> iff it is done, \<open>is_blocked()\<close> iff it is blocked; \<open>is_active()\<close> and
  \<open>is_completed()\<close> never hold together, and for the statuses deferred, cancelled and
  blocked neither holds.
\<close>

theorem C8_status_predicates:
  "(Task_is_active t \<longleftrightarrow> t_status t = PENDING \<or> t_status t = IN_PROGRESS)
   \<and> (Task_is_completed t \<longleftrightarrow> t_status t = DONE)
   \<and> (Task_is_blocked t \<longleftrightarrow> t_status t = BLOCKED)
   \<and> \<not> (Task_is_active t \<and> Task_is_completed t)
   \<and> (t_status t \<in> {DEFERRED, CANCELLED, BLOCKED}
        \<longrightarrow> \<not> Task_is_active t \<and> \<not> Task_is_completed t)"
  by (auto simp: Task_is_active_def Task_is_completed_def Task_is_blocked_def)

theorem C8_status_predicates_witness:
  "t_status (sample_task\<lparr>t_status := BLOCKED\<rparr>) \<in> {DEFERRED, CANCELLED, BLOCKED}
   \<and> \<not> Task_is_active (sample_task\<lparr>t_status := BLOCKED\<rparr>)
   \<and> \<not> Task_is_completed (sample_task\<lparr>t_status := BLOCKED\<rparr>)
   \<and> Task_is_blocked (sample_task\<lparr>t_status := BLOCKED\<rparr>)"
  using C8_status_predicates [of "sample_task\<lparr>t_status := BLOCKED\<rparr>"] by simp

subsection \<open>Completion percentage\<close>

lemma completed_count:
  "get_completed_subtask_count t =
     int (length (filter (\<lambda>s. st_status s = ''done'') (t_subtasks t)))"
proof -
  have "sum_list (map (\<lambda>st. 1::int) xs) = int (length xs)" for xs :: "SubTask list"
    by (induction xs) simp_all
  then show ?thesis
    by (simp add: get_completed_subtask_count_def SubTask_is_completed_def [abs_def])
qed

text \<open>Rounding to the nearest integer errs by at most one half.\<close>

lemma round_half_even_error: "\<bar>of_int (round_half_even y) - y\<bar> \<le> 1 / 2"
proof -
  have "of_int \<lfloor>y\<rfloor> \<le> y" "y < of_int \<lfloor>y\<rfloor> + 1" by linarith+
  then show ?thesis
    by (auto simp: round_half_even_def Let_def abs_le_iff)
qed

lemma ilog2_bounds:
  assumes "0 < x"
  shows "2 powi ilog2 x \<le> x \<and> x < 2 powi (ilog2 x + 1)"
proof -
  obtain p q where pq: "quotient_of x = (p, q)" by (cases "quotient_of x")
  then have q: "0 < q" and x: "x = of_int p / of_int q"
    by (simp_all add: quotient_of_denom_pos quotient_of_div)
  with assms have p: "0 < p" by (simp add: zero_less_divide_iff)
  define k where "k = bitlen p - bitlen q"
  from bitlen_bounds [OF p] bitlen_bounds [OF q]
  have bp: "2 ^ nat (bitlen p - 1) \<le> p" "p < 2 ^ nat (bitlen p)"
    and bq: "2 ^ nat (bitlen q - 1) \<le> q" "q < 2 ^ nat (bitlen q)" by simp_all
  have p1: "1 \<le> bitlen p" and q1: "1 \<le> bitlen q"
    using p q by (simp_all add: bitlen_alt_def)
  have cast: "(2::rat) powi n = of_int (2 ^ nat n)" if "0 \<le> n" for n
    using that by (simp add: power_int_nonneg_exp)
  have rp: "(2::rat) powi (bitlen p - 1) \<le> of_int p" "of_int p < (2::rat) powi bitlen p"
    using bp p1 by (simp_all only: cast of_int_le_iff of_int_less_iff)
  have rq: "(2::rat) powi (bitlen q - 1) \<le> of_int q" "of_int q < (2::rat) powi bitlen q"
    using bq q1 by (simp_all only: cast of_int_le_iff of_int_less_iff)
  have "(2::rat) powi (k - 1) = 2 powi (bitlen p - 1) / 2 powi bitlen q"
    by (simp add: k_def power_int_diff [symmetric] algebra_simps)
  also have "\<dots> \<le> of_int p / of_int q"
    using rp rq p q by (intro frac_le) simp_all
  finally have lo: "2 powi (k - 1) \<le> x" by (simp add: x)
  have "x = of_int p / of_int q" by (fact x)
  also have "\<dots> < 2 powi bitlen p / 2 powi (bitlen q - 1)"
    using rp rq p q by (intro frac_less) simp_all
  also have "\<dots> = 2 powi (k + 1)"
    by (simp add: k_def power_int_diff [symmetric] algebra_simps)
  finally have hi: "x < 2 powi (k + 1)" .
  show ?thesis
    using lo hi by (simp add: ilog2_def pq k_def [symmetric] Let_def not_le)
qed

text \<open>In the normal range a rounding moves a number by at most the fraction
  \<open>2 ^ - 53\<close> of it.\<close>

lemma float_round_error:
  assumes "2 powi (- 1022) \<le> \<bar>x\<bar>"
  shows "\<bar>float_round x - x\<bar> \<le> \<bar>x\<bar> / 2 ^ 53"
proof -
  have "(0::rat) < 2 powi (- 1022)" by (rule zero_less_power_int) simp
  from this assms have pos: "0 < \<bar>x\<bar>" by (rule less_le_trans)
  then have nz: "x \<noteq> 0" by simp
  note b = ilog2_bounds [OF pos]
  have lt: "(2::rat) powi (- 1022) < 2 powi (ilog2 \<bar>x\<bar> + 1)"
    using assms b by (blast intro: le_less_trans)
  have ge: "- 1022 < ilog2 \<bar>x\<bar> + 1"
  proof (rule ccontr)
    assume "\<not> - 1022 < ilog2 \<bar>x\<bar> + 1"
    then have "ilog2 \<bar>x\<bar> + 1 \<le> - 1022" by simp
    then have "(2::rat) powi (ilog2 \<bar>x\<bar> + 1) \<le> 2 powi (- 1022)"
      by (rule power_int_increasing) simp
    with lt show False by linarith
  qed
  define e where "e = ilog2 \<bar>x\<bar> - 52"
  define P :: rat where "P = 2 powi e"
  define m where "m = round_half_even (x / P)"
  have e: "max (ilog2 \<bar>x\<bar> - 52) (- 1074) = e"
    using ge by (simp add: e_def)
  have P: "0 < P" by (simp add: P_def)
  have fr: "float_round x = of_int m * P"
    using nz by (simp only: float_round_def e Let_def m_def P_def if_False)
  have "P * (of_int m - x / P) = of_int m * P - x"
    using P by (simp add: field_simps)
  then have "\<bar>of_int m * P - x\<bar> = \<bar>P * (of_int m - x / P)\<bar>"
    by simp
  also have "\<dots> = P * \<bar>of_int m - x / P\<bar>"
    using P by (simp add: abs_mult)
  also have "\<dots> \<le> P * (1 / 2)"
    unfolding m_def using P by (intro mult_left_mono round_half_even_error) simp
  finally have 1: "\<bar>of_int m * P - x\<bar> \<le> P / 2" by simp
  have "P = 2 powi ilog2 \<bar>x\<bar> / 2 ^ 52"
    by (simp add: P_def e_def power_int_diff)
  also have "\<dots> \<le> \<bar>x\<bar> / 2 ^ 52"
    using b by (intro divide_right_mono) simp_all
  finally have "P / 2 \<le> \<bar>x\<bar> / 2 ^ 53" by simp
  with 1 show ?thesis by (simp only: fr)
qed

lemma two_roundings:
  fixes q r s u :: rat
  assumes "0 < q" "0 \<le> u" "u \<le> 1"
    and 1: "\<bar>r - q\<bar> \<le> q * u" and 2: "\<bar>s - r * 100\<bar> \<le> r * 100 * u"
  shows "\<bar>s - 100 * q\<bar> \<le> 100 * q * 3 * u"
proof -
  have "q * u \<le> q * 1" using assms by (intro mult_left_mono) simp_all
  with 1 have "r \<le> 2 * q" by (simp add: abs_le_iff)
  then have "r * u \<le> 2 * q * u" using assms by (intro mult_right_mono) simp_all
  with 1 2 show ?thesis by (simp add: abs_le_iff)
qed

text \<open>The quotient of two list lengths and its product with 100 are in the normal
  range (a Python list holds fewer than \<open>2 ^ 63\<close> items), so the two roundings of
  \<^verbatim>\<open>(completed / len(self.subtasks)) * 100\<close> move the result by at most the fraction
  \<open>3 / 2 ^ 53\<close> of the exact percentage.\<close>

lemma percentage_error:
  fixes c n :: nat
  assumes c: "0 < c" and n: "0 < n" "n < 2 ^ 63"
  defines "q \<equiv> of_nat c / of_nat n"
  shows "\<bar>float_round (float_round q * 100) - 100 * q\<bar> \<le> 100 * q * 3 / 2 ^ 53"
proof -
  define r where "r = float_round q"
  define u :: rat where "u = 1 / 2 ^ 53"
  have u: "0 \<le> u" "u \<le> 1 / 2" by (simp_all add: u_def)
  have "(2::rat) powi (- 1022) \<le> 2 powi (- 64)"
    by (rule power_int_increasing) simp_all
  also have "\<dots> = 1 / 2 ^ 63 / 2"
    by (simp add: power_int_minus_divide)
  also have "\<dots> \<le> 1 / of_nat n / 2"
  proof -
    have "(of_nat n :: rat) \<le> of_nat (2 ^ 63)" using n by (simp only: of_nat_le_iff)
    then show ?thesis using n by (intro divide_right_mono divide_left_mono) simp_all
  qed
  also have "\<dots> \<le> q / 2"
    unfolding q_def using c n by (intro divide_right_mono) simp_all
  finally have q: "2 powi (- 1022) \<le> q / 2" .
  have q0: "0 < q" using c n by (simp add: q_def)
  from q q0 have "2 powi (- 1022) \<le> \<bar>q\<bar>" by simp
  from float_round_error [OF this] q0 have 1: "\<bar>r - q\<bar> \<le> q * u"
    by (simp add: r_def u_def)
  have "q * u \<le> q * (1 / 2)" using q0 u by (intro mult_left_mono) simp_all
  with 1 have r: "q / 2 \<le> r" by (simp add: abs_le_iff)
  with q q0 have "2 powi (- 1022) \<le> \<bar>r * 100\<bar>" by simp
  from float_round_error [OF this] r q0
  have 2: "\<bar>float_round (r * 100) - r * 100\<bar> \<le> r * 100 * u"
    by (simp add: u_def)
  from two_roundings [OF q0 u(1) _ 1 2] u show ?thesis
    by (simp add: r_def u_def)
qed

text \<open>The floats 0, 1 and 100 are exact, and so are the two percentages computed here.\<close>

lemma float_round_0: "float_round 0 = 0"
  by (simp add: float_round_def)

lemma float_round_1: "float_round 1 = 1"
  by code_simp

lemma float_round_100: "float_round 100 = 100"
  by code_simp

lemma two_of_five: "float_round (float_round (2 / 5) * 100) = 40"
  by code_simp

lemma eleven_of_twenty: "float_round (float_round (11 / 20) * 100) = 55 + 1 / 2 ^ 47"
  by code_simp

lemma percentage_of_subtasks:
  "t_subtasks t \<noteq> [] \<Longrightarrow>
   get_completion_percentage t =
     float_round
       (float_round
          (of_nat (length (filter (\<lambda>s. st_status s = ''done'') (t_subtasks t)))
             / of_nat (length (t_subtasks t)))
        * 100)"
  by (simp add: get_completion_percentage_def completed_count int_truediv_def float_mul_def)

text \<open>
  C5, as amended. For every Task: with no subtasks, \<open>get_completion_percentage()\<close> is
  exactly 100.0 when the status is done and exactly 0.0 otherwise. With \<open>n\<close> subtasks,
  \<open>c\<close> of them with the status "done", it is the float product \<open>(c / n) * 100\<close>: the
  quotient rounded to the nearest float, times 100, rounded again. That is exactly 0.0
  when \<open>c\<close> is 0 and exactly 100.0 when \<open>c\<close> is \<open>n\<close>, and it differs from the exact
  percentage \<open>100 * c / n\<close> by at most the fraction \<open>3 / 2 ^ 53\<close> of it, for a list of
  fewer than \<open>2 ^ 63\<close> subtasks. The witness has the task with 2 done and 3 pending
  subtasks, where it is exactly 40.0.
\<close>

theorem C5_completion_percentage:
  assumes "n = length (t_subtasks t)"
    and "c = length (filter (\<lambda>s. st_status s = ''done'') (t_subtasks t))"
  shows "(t_subtasks t = [] \<and> t_status t = DONE \<longrightarrow> get_completion_percentage t = 100)
   \<and> (t_subtasks t = [] \<and> t_status t \<noteq> DONE \<longrightarrow> get_completion_percentage t = 0)
   \<and> (t_subtasks t \<noteq> [] \<longrightarrow>
        get_completion_percentage t = float_round (float_round (of_nat c / of_nat n) * 100))
   \<and> (t_subtasks t \<noteq> [] \<and> c = 0 \<longrightarrow> get_completion_percentage t = 0)
   \<and> (t_subtasks t \<noteq> [] \<and> c = n \<longrightarrow> get_completion_percentage t = 100)
   \<and> (t_subtasks t \<noteq> [] \<and> n < 2 ^ 63 \<longrightarrow>
        \<bar>get_completion_percentage t - 100 * of_nat c / of_nat n\<bar>
          \<le> 100 * of_nat c / of_nat n * 3 / 2 ^ 53)"
proof (intro conjI impI)
  show "get_completion_percentage t = 100" if "t_subtasks t = [] \<and> t_status t = DONE"
    using that by (simp add: get_completion_percentage_def Task_is_completed_def)
  show "get_completion_percentage t = 0" if "t_subtasks t = [] \<and> t_status t \<noteq> DONE"
    using that by (simp add: get_completion_percentage_def Task_is_completed_def)
  show "get_completion_percentage t = float_round (float_round (of_nat c / of_nat n) * 100)"
    if "t_subtasks t \<noteq> []"
    using that assms by (simp add: percentage_of_subtasks)
  show "get_completion_percentage t = 0" if "t_subtasks t \<noteq> [] \<and> c = 0"
    using that assms by (simp add: percentage_of_subtasks float_round_0)
  show "get_completion_percentage t = 100" if "t_subtasks t \<noteq> [] \<and> c = n"
    using that assms by (simp add: percentage_of_subtasks float_round_1 float_round_100)
  show "\<bar>get_completion_percentage t - 100 * of_nat c / of_nat n\<bar>
          \<le> 100 * of_nat c / of_nat n * 3 / 2 ^ 53"
    if "t_subtasks t \<noteq> [] \<and> n < 2 ^ 63"
  proof (cases "c = 0")
    case True
    with that assms show ?thesis by (simp add: percentage_of_subtasks float_round_0)
  next
    case False
    with that assms have "0 < c" "0 < n" "n < 2 ^ 63" by simp_all
    from percentage_error [OF this] that assms show ?thesis
      by (simp add: percentage_of_subtasks)
  qed
qed

theorem C5_completion_percentage_witness:
  "get_completion_percentage (sample_task\<lparr>t_status := DONE\<rparr>) = 100
   \<and> get_completion_percentage sample_task = 0
   \<and> length (t_subtasks task_with_five_subtasks) = 5
   \<and> length (filter (\<lambda>s. st_status s = ''done'') (t_subtasks task_with_five_subtasks)) = 2
   \<and> get_completion_percentage task_with_five_subtasks = 40
   \<and> \<bar>get_completion_percentage task_with_five_subtasks - 100 * 2 / 5\<bar> \<le> 100 * 2 / 5 * 3 / 2 ^ 53
   \<and> get_completion_percentage task_started = 0
   \<and> get_completion_percentage task_finished = 100"
proof -
  have 1: "get_completion_percentage (sample_task\<lparr>t_status := DONE\<rparr>) = 100"
    using C5_completion_percentage [of 0 "sample_task\<lparr>t_status := DONE\<rparr>" 0]
    by (simp add: sample_task_def)
  have 2: "get_completion_percentage sample_task = 0"
    using C5_completion_percentage [of 0 sample_task 0]
    by (simp add: sample_task_def)
  have 3: "length (t_subtasks task_with_five_subtasks) = 5
    \<and> length (filter (\<lambda>s. st_status s = ''done'') (t_subtasks task_with_five_subtasks)) = 2"
    by (simp add: task_with_five_subtasks_def sample_task_def sample_subtask_def)
  have 4: "get_completion_percentage task_with_five_subtasks = 40
    \<and> \<bar>get_completion_percentage task_with_five_subtasks - 100 * 2 / 5\<bar> \<le> 100 * 2 / 5 * 3 / 2 ^ 53"
    using C5_completion_percentage [of 5 task_with_five_subtasks 2] 3
    by (simp add: two_of_five) (simp add: task_with_five_subtasks_def)
  have 5: "get_completion_percentage task_started = 0"
    using C5_completion_percentage [of 1 task_started 0]
    by (simp add: task_started_def sample_task_def sample_subtask_def)
  have 6: "get_completion_percentage task_finished = 100"
    using C5_completion_percentage [of 1 task_finished 1]
    by (simp add: task_finished_def sample_task_def sample_subtask_def)
  from 1 2 3 4 5 6 show ?thesis by blast
qed

text \<open>
  C5 as stated fails on a task with 11 of 20 subtasks done: \<open>100 * 11 / 20\<close> is 55, and
  the float \<open>(11 / 20) * 100\<close> is the next float above 55, which Python prints as
  \<^verbatim>\<open>55.00000000000001\<close>.
\<close>

theorem C5_counterexample:
  "length (t_subtasks task_with_twenty_subtasks) = 20
   \<and> length (filter (\<lambda>s. st_status s = ''done'') (t_subtasks task_with_twenty_subtasks)) = 11
   \<and> get_completion_percentage task_with_twenty_subtasks = 55 + 1 / 2 ^ 47
   \<and> get_completion_percentage task_with_twenty_subtasks \<noteq> 100 * 11 / 20"
proof -
  have 1: "length (t_subtasks task_with_twenty_subtasks) = 20
    \<and> length (filter (\<lambda>s. st_status s = ''done'') (t_subtasks task_with_twenty_subtasks)) = 11"
    by (simp add: task_with_twenty_subtasks_def sample_task_def sample_subtask_def)
  moreover have "t_subtasks task_with_twenty_subtasks \<noteq> []"
    by (simp add: task_with_twenty_subtasks_def)
  ultimately have "get_completion_percentage task_with_twenty_subtasks = 55 + 1 / 2 ^ 47"
    by (simp add: percentage_of_subtasks eleven_of_twenty)
  with 1 show ?thesis by simp
qed

subsection \<open>Parsing\<close>

text \<open>The errors and the value of a model's validation, from those of its fields.\<close>

lemma errors_collect: "errors (collect f x) = errors f @ errors x"
  by (cases f; cases x) simp_all

lemma value_of_at_loc: "value_of (at_loc l r) = value_of r"
  by (cases r) (simp_all add: at_loc_def)

lemma value_of_required_field:
  "value_of (required_field d n f) = (case map_of d n of None \<Rightarrow> None | Some v \<Rightarrow> value_of (f v))"
  by (simp add: required_field_def value_of_at_loc split: option.split)

lemma value_of_optional_field:
  "value_of (optional_field d n dflt f)
     = (case map_of d n of None \<Rightarrow> Some dflt | Some v \<Rightarrow> value_of (f v))"
  by (simp add: optional_field_def value_of_at_loc split: option.split)

lemma value_of_Some: "value_of r = Some x \<longleftrightarrow> r = Inr x"
  by (cases r) simp_all

lemma raises_validation_iff:
  "raises_validation (from_api_response cls (PDict d)) e \<longleftrightarrow> e \<in> set (errors (cls d))"
  by (cases "cls d") (simp_all add: raises_validation_def from_api_response_def)

lemma from_api_response_Inr:
  "from_api_response cls (PDict d) = Inr x \<longleftrightarrow> value_of (cls d) = Some x"
  by (cases "cls d") (simp_all add: from_api_response_def)

lemma errors_Task_validate:
  "errors (Task_validate L d) =
     errors (required_field d ''id'' validate_str)
     @ errors (required_field d ''title'' (validate_constrained_str 1 255))
     @ errors (optional_field d ''description'' None (validate_optional validate_str))
     @ errors (optional_field d ''status'' PENDING (validate_enum TaskStatus_members TaskStatus_value))
     @ errors (optional_field d ''priority'' MEDIUM (validate_enum TaskPriority_members TaskPriority_value))
     @ errors (required_field d ''created_at'' (validate_dt L))
     @ errors (required_field d ''updated_at'' (validate_dt L))
     @ errors (optional_field d ''subtasks'' [] (validate_SubTask_list L))
     @ errors (optional_field d ''project_id'' None (validate_optional validate_str))
     @ errors (optional_field d ''account_id'' None (validate_optional validate_str))
     @ errors (optional_field d ''metadata'' None (validate_optional validate_dict))"
  by (simp add: Task_validate_def errors_collect)

lemma errors_SubTask_validate:
  "errors (SubTask_validate L d) =
     errors (required_field d ''id'' validate_str)
     @ errors (required_field d ''parent_id'' validate_str)
     @ errors (required_field d ''title'' (validate_constrained_str 1 255))
     @ errors (optional_field d ''description'' None (validate_optional validate_str))
     @ errors (optional_field d ''status'' ''pending'' validate_str)
     @ errors (required_field d ''created_at'' (validate_dt L))
     @ errors (required_field d ''updated_at'' (validate_dt L))
     @ errors (optional_field d ''metadata'' None (validate_optional validate_dict))"
  by (simp add: SubTask_validate_def errors_collect)

lemma errors_missing:
  "map_of d f = None \<Longrightarrow>
   errors (required_field d f v) = [\<lparr>err_type = ''missing'', err_loc = [LocField f], err_input = PDict d\<rparr>]"
  by (simp add: required_field_def)

lemma errors_title_short:
  "map_of d ''title'' = Some (PStr []) \<Longrightarrow> 0 < lo \<Longrightarrow>
   errors (required_field d ''title'' (validate_constrained_str lo hi))
     = [\<lparr>err_type = ''string_too_short'', err_loc = [LocField ''title''], err_input = PStr []\<rparr>]"
  by (simp add: required_field_def validate_constrained_str_def validate_str_def at_loc_def
      field_error_def)

lemma errors_title_long:
  "map_of d ''title'' = Some (PStr s) \<Longrightarrow> hi < length s \<Longrightarrow> lo \<le> length s \<Longrightarrow>
   errors (required_field d ''title'' (validate_constrained_str lo hi))
     = [\<lparr>err_type = ''string_too_long'', err_loc = [LocField ''title''], err_input = PStr s\<rparr>]"
  by (simp add: required_field_def validate_constrained_str_def validate_str_def at_loc_def
      field_error_def)

lemma errors_status:
  "map_of d ''status'' = Some (PStr s) \<Longrightarrow>
   s \<notin> {''pending'', ''in-progress'', ''done'', ''deferred'', ''cancelled'', ''blocked''} \<Longrightarrow>
   errors (optional_field d ''status'' PENDING (validate_enum TaskStatus_members TaskStatus_value))
     = [\<lparr>err_type = ''enum'', err_loc = [LocField ''status''], err_input = PStr s\<rparr>]"
  by (auto simp: optional_field_def validate_enum_def TaskStatus_members_def at_loc_def
      field_error_def)

lemma errors_priority:
  "map_of d ''priority'' = Some (PStr s) \<Longrightarrow>
   s \<notin> {''low'', ''medium'', ''high'', ''critical''} \<Longrightarrow>
   errors (optional_field d ''priority'' MEDIUM (validate_enum TaskPriority_members TaskPriority_value))
     = [\<lparr>err_type = ''enum'', err_loc = [LocField ''priority''], err_input = PStr s\<rparr>]"
  by (auto simp: optional_field_def validate_enum_def TaskPriority_members_def at_loc_def
      field_error_def)

lemma Task_missing:
  "f \<in> {''id'', ''title'', ''created_at'', ''updated_at''} \<Longrightarrow> map_of d f = None \<Longrightarrow>
   raises_validation (Task_from_api_response L (PDict d))
     \<lparr>err_type = ''missing'', err_loc = [LocField f], err_input = PDict d\<rparr>"
  by (auto simp: Task_from_api_response_def raises_validation_iff errors_Task_validate errors_missing)

lemma SubTask_missing:
  "f \<in> {''id'', ''parent_id'', ''title'', ''created_at'', ''updated_at''} \<Longrightarrow> map_of d f = None \<Longrightarrow>
   raises_validation (SubTask_from_api_response L (PDict d))
     \<lparr>err_type = ''missing'', err_loc = [LocField f], err_input = PDict d\<rparr>"
  by (auto simp: SubTask_from_api_response_def raises_validation_iff errors_SubTask_validate errors_missing)

lemma Task_out_of_range:
  "map_of d ''title'' = Some (PStr []) \<Longrightarrow>
     raises_validation (Task_from_api_response L (PDict d))
       \<lparr>err_type = ''string_too_short'', err_loc = [LocField ''title''], err_input = PStr []\<rparr>"
  "map_of d ''title'' = Some (PStr s) \<Longrightarrow> 255 < length s \<Longrightarrow>
     raises_validation (Task_from_api_response L (PDict d))
       \<lparr>err_type = ''string_too_long'', err_loc = [LocField ''title''], err_input = PStr s\<rparr>"
  "map_of d ''status'' = Some (PStr s) \<Longrightarrow>
   s \<notin> {''pending'', ''in-progress'', ''done'', ''deferred'', ''cancelled'', ''blocked''} \<Longrightarrow>
     raises_validation (Task_from_api_response L (PDict d))
       \<lparr>err_type = ''enum'', err_loc = [LocField ''status''], err_input = PStr s\<rparr>"
  "map_of d ''priority'' = Some (PStr s) \<Longrightarrow>
   s \<notin> {''low'', ''medium'', ''high'', ''critical''} \<Longrightarrow>
     raises_validation (Task_from_api_response L (PDict d))
       \<lparr>err_type = ''enum'', err_loc = [LocField ''priority''], err_input = PStr s\<rparr>"
  by (simp_all add: Task_from_api_response_def raises_validation_iff errors_Task_validate
      errors_title_short errors_title_long errors_status errors_priority)

lemma SubTask_out_of_range:
  "map_of d ''title'' = Some (PStr []) \<Longrightarrow>
     raises_validation (SubTask_from_api_response L (PDict d))
       \<lparr>err_type = ''string_too_short'', err_loc = [LocField ''title''], err_input = PStr []\<rparr>"
  "map_of d ''title'' = Some (PStr s) \<Longrightarrow> 255 < length s \<Longrightarrow>
     raises_validation (SubTask_from_api_response L (PDict d))
       \<lparr>err_type = ''string_too_long'', err_loc = [LocField ''title''], err_input = PStr s\<rparr>"
  by (simp_all add: SubTask_from_api_response_def raises_validation_iff errors_SubTask_validate
      errors_title_short errors_title_long)

lemma collect_value_cong:
  "value_of f = value_of f' \<Longrightarrow> value_of x = value_of x' \<Longrightarrow>
   value_of (collect f x) = value_of (collect f' x')"
  by (cases f; cases f'; cases x; cases x') simp_all

lemma required_field_agree:
  "map_of d' n = map_of d n \<Longrightarrow>
   value_of (required_field d' n f) = value_of (required_field d n f)"
  by (simp add: value_of_required_field)

lemma optional_field_agree:
  "map_of d' n = map_of d n \<Longrightarrow>
   value_of (optional_field d' n dflt f) = value_of (optional_field d n dflt f)"
  by (simp add: value_of_optional_field)

lemma Task_validate_agree:
  assumes "\<forall>k \<in> set Task_fields. map_of d' k = map_of d k"
  shows "value_of (Task_validate L d') = value_of (Task_validate L d)"
  using assms unfolding Task_validate_def Task_fields_def
  by (intro collect_value_cong required_field_agree optional_field_agree refl) simp_all

lemma SubTask_validate_agree:
  assumes "\<forall>k \<in> set SubTask_fields. map_of d' k = map_of d k"
  shows "value_of (SubTask_validate L d') = value_of (SubTask_validate L d)"
  using assms unfolding SubTask_validate_def SubTask_fields_def
  by (intro collect_value_cong required_field_agree optional_field_agree refl) simp_all

lemma extra_fields_ignored:
  "\<forall>k \<in> set Task_fields. map_of d' k = map_of d k \<Longrightarrow>
   Task_from_api_response L (PDict d) = Inr t \<Longrightarrow> Task_from_api_response L (PDict d') = Inr t"
  "\<forall>k \<in> set SubTask_fields. map_of d' k = map_of d k \<Longrightarrow>
   SubTask_from_api_response L (PDict d) = Inr st \<Longrightarrow> SubTask_from_api_response L (PDict d') = Inr st"
  using Task_validate_agree [of d' d L] SubTask_validate_agree [of d' d L]
  by (simp_all add: Task_from_api_response_def SubTask_from_api_response_def from_api_response_Inr)

lemma never_sdk_error:
  "from_api_response cls v = Inl e \<Longrightarrow> \<not> isinstance_sdk e c"
  by (auto simp: from_api_response_def split: pyval.splits sum.splits)


lemma proper_collect: "proper f \<Longrightarrow> proper x \<Longrightarrow> proper (collect f x)"
  by (cases f; cases x) (simp_all add: proper_def)

lemma proper_at_loc: "proper r \<Longrightarrow> proper (at_loc l r)"
  by (cases r) (simp_all add: proper_def at_loc_def)

lemma proper_required_field: "(\<And>v. proper (f v)) \<Longrightarrow> proper (required_field d n f)"
  by (simp add: required_field_def proper_at_loc split: option.split) (simp add: proper_def)

lemma proper_optional_field: "(\<And>v. proper (f v)) \<Longrightarrow> proper (optional_field d n dflt f)"
  by (simp add: optional_field_def proper_at_loc split: option.split) (simp add: proper_def)

lemma proper_validators:
  "proper (validate_str v)"
  "proper (validate_constrained_str lo hi v)"
  "proper (validate_enum members val v)"
  "proper (validate_dt L v)"
  "proper (validate_dict v)"
  by (simp_all add: proper_def validate_str_def validate_constrained_str_def validate_enum_def
      validate_dt_def validate_dict_def field_error_def split: pyval.split option.split sum.split)

lemma proper_validate_optional: "(\<And>v. proper (f v)) \<Longrightarrow> proper (validate_optional f v)"
proof -
  assume a: "\<And>v. proper (f v)"
  show ?thesis using a [of v]
    by (cases "f v") (simp_all add: validate_optional_def proper_def)
qed

lemma proper_SubTask_validate: "proper (SubTask_validate L d)"
  unfolding SubTask_validate_def
  by (intro proper_collect proper_required_field proper_optional_field proper_validators
      proper_validate_optional) (simp add: proper_def)

lemma proper_field_error: "proper (Inl (field_error ty v))"
  by (simp add: proper_def field_error_def)

lemma proper_validate_SubTask: "proper (validate_SubTask L v)"
  by (cases v) (simp_all add: validate_SubTask_def proper_SubTask_validate proper_field_error)

lemma proper_validate_items: "proper (validate_items L i vs)"
proof (induction vs arbitrary: i)
  case Nil
  show ?case by (simp add: proper_def)
next
  case (Cons v vs)
  have "proper (Inr (#) :: (SubTask \<Rightarrow> SubTask list \<Rightarrow> SubTask list) validated)"
    by (simp add: proper_def)
  then show ?case
    using Cons by (simp add: proper_collect proper_at_loc proper_validate_SubTask)
qed

lemma proper_validate_SubTask_list: "proper (validate_SubTask_list L v)"
  by (cases v) (simp_all add: validate_SubTask_list_def proper_validate_items proper_field_error)

lemma proper_Task_validate: "proper (Task_validate L d)"
  unfolding Task_validate_def
  by (intro proper_collect proper_required_field proper_optional_field proper_validators
      proper_validate_optional proper_validate_SubTask_list) (simp add: proper_def)

lemma failure_is_pydantic:
  "proper (cls d) \<Longrightarrow> from_api_response cls (PDict d) = Inl e \<Longrightarrow>
   \<exists>errs. errs \<noteq> [] \<and> e = PydanticValidationError errs"
  by (cases "cls d") (auto simp: from_api_response_def proper_def)

lemma collect_Inr_iff: "collect f x = Inr y \<longleftrightarrow> (\<exists>g v. f = Inr g \<and> x = Inr v \<and> y = g v)"
  by (cases f; cases x) auto

lemma required_field_Inr_agree:
  "map_of d' n = map_of d n \<Longrightarrow> required_field d n f = Inr x \<Longrightarrow> required_field d' n f = Inr x"
  by (simp add: required_field_def split: option.splits)

lemma optional_field_eq_agree:
  "map_of d' n = map_of d n \<Longrightarrow> optional_field d' n dflt f = optional_field d n dflt f"
  by (simp add: optional_field_def)

lemma SubTask_any_status:
  assumes "SubTask_from_api_response L (PDict d) = Inr st"
  shows "SubTask_from_api_response L (PDict ((''status'', PStr s) # d)) = Inr (st\<lparr>st_status := s\<rparr>)"
proof -
  let ?d = "(''status'', PStr s) # d"
  from assms have v: "SubTask_validate L d = Inr st"
    by (simp add: SubTask_from_api_response_def from_api_response_Inr value_of_Some)
  have s: "optional_field ?d ''status'' ''pending'' validate_str = Inr s"
    by (simp add: optional_field_def validate_str_def at_loc_def)
  from v show ?thesis
    by (auto simp: SubTask_from_api_response_def from_api_response_Inr value_of_Some
        SubTask_validate_def collect_Inr_iff s
        optional_field_eq_agree [of ?d _ d] required_field_Inr_agree [of ?d _ d])
qed

text \<open>The fixtures parse to the entities they describe.\<close>

lemma sample_task_parses:
  "Task_from_api_response example_pydantic (PDict sample_task_data) = Inr sample_task"
  by (simp add: Task_from_api_response_def from_api_response_def Task_validate_def
      sample_task_data_def sample_task_def example_pydantic_def required_field_def
      optional_field_def at_loc_def validate_str_def validate_constrained_str_def
      validate_optional_def validate_enum_def TaskStatus_members_def TaskPriority_members_def
      validate_dt_def validate_dict_def validate_SubTask_list_def)

lemma sample_subtask_parses:
  "SubTask_from_api_response example_pydantic (PDict sample_subtask_data) = Inr sample_subtask"
  by (simp add: SubTask_from_api_response_def from_api_response_def SubTask_validate_def
      sample_subtask_data_def sample_subtask_def example_pydantic_def required_field_def
      optional_field_def at_loc_def validate_str_def validate_constrained_str_def
      validate_optional_def validate_dt_def validate_dict_def)

lemma missing_title_parse:
  "Task_from_api_response example_pydantic (PDict [(''id'', PStr ''1'')])
     = Inl (PydanticValidationError
         [\<lparr>err_type = ''missing'', err_loc = [LocField ''title''], err_input = PDict [(''id'', PStr ''1'')]\<rparr>,
          \<lparr>err_type = ''missing'', err_loc = [LocField ''created_at''], err_input = PDict [(''id'', PStr ''1'')]\<rparr>,
          \<lparr>err_type = ''missing'', err_loc = [LocField ''updated_at''], err_input = PDict [(''id'', PStr ''1'')]\<rparr>])"
  by (simp add: Task_from_api_response_def from_api_response_def Task_validate_def
      required_field_def optional_field_def at_loc_def validate_str_def)

text \<open>
  C3, as amended. For every raw dict in which a required field is missing (\<open>id\<close>,
  \<open>title\<close>, \<open>created_at\<close>, \<open>updated_at\<close>, and for a subtask \<open>parent_id\<close>), or the title is
  empty or longer than 255 characters, or (for a task) the status or priority is a
  string outside the enumeration, \<open>from_api_response\<close> fails with pydantic's
  \<^verbatim>\<open>ValidationError\<close>, whose list of errors holds a record (type, location, input) for
  that field. A subtask accepts any string as its status. On a dict every failure is
  pydantic's \<^verbatim>\<open>ValidationError\<close> with at least one record; no failure is an instance of
  a class of the SDK's taxonomy, so none is the SDK's \<open>ValidationError\<close>. A dict that
  agrees with a parsed one on the declared fields parses to the same entity: extra
  fields are ignored.
\<close>

theorem C3_parsing_failures:
  "(f \<in> {''id'', ''title'', ''created_at'', ''updated_at''} \<and> map_of d f = None \<longrightarrow>
      raises_validation (Task_from_api_response L (PDict d))
        \<lparr>err_type = ''missing'', err_loc = [LocField f], err_input = PDict d\<rparr>)
   \<and> (f \<in> {''id'', ''parent_id'', ''title'', ''created_at'', ''updated_at''} \<and> map_of d f = None \<longrightarrow>
      raises_validation (SubTask_from_api_response L (PDict d))
        \<lparr>err_type = ''missing'', err_loc = [LocField f], err_input = PDict d\<rparr>)
   \<and> (map_of d ''title'' = Some (PStr []) \<longrightarrow>
      raises_validation (Task_from_api_response L (PDict d))
        \<lparr>err_type = ''string_too_short'', err_loc = [LocField ''title''], err_input = PStr []\<rparr>
      \<and> raises_validation (SubTask_from_api_response L (PDict d))
        \<lparr>err_type = ''string_too_short'', err_loc = [LocField ''title''], err_input = PStr []\<rparr>)
   \<and> (map_of d ''title'' = Some (PStr s) \<and> 255 < length s \<longrightarrow>
      raises_validation (Task_from_api_response L (PDict d))
        \<lparr>err_type = ''string_too_long'', err_loc = [LocField ''title''], err_input = PStr s\<rparr>
      \<and> raises_validation (SubTask_from_api_response L (PDict d))
        \<lparr>err_type = ''string_too_long'', err_loc = [LocField ''title''], err_input = PStr s\<rparr>)
   \<and> (map_of d ''status'' = Some (PStr s)
       \<and> s \<notin> {''pending'', ''in-progress'', ''done'', ''deferred'', ''cancelled'', ''blocked''} \<longrightarrow>
      raises_validation (Task_from_api_response L (PDict d))
        \<lparr>err_type = ''enum'', err_loc = [LocField ''status''], err_input = PStr s\<rparr>)
   \<and> (map_of d ''priority'' = Some (PStr s) \<and> s \<notin> {''low'', ''medium'', ''high'', ''critical''} \<longrightarrow>
      raises_validation (Task_from_api_response L (PDict d))
        \<lparr>err_type = ''enum'', err_loc = [LocField ''priority''], err_input = PStr s\<rparr>)
   \<and> (SubTask_from_api_response L (PDict d) = Inr st \<longrightarrow>
      SubTask_from_api_response L (PDict ((''status'', PStr s) # d)) = Inr (st\<lparr>st_status := s\<rparr>))
   \<and> (Task_from_api_response L (PDict d) = Inl e \<longrightarrow>
      (\<exists>errs. errs \<noteq> [] \<and> e = PydanticValidationError errs))
   \<and> (SubTask_from_api_response L (PDict d) = Inl e \<longrightarrow>
      (\<exists>errs. errs \<noteq> [] \<and> e = PydanticValidationError errs))
   \<and> (Task_from_api_response L v = Inl e \<longrightarrow> \<not> isinstance_sdk e c)
   \<and> (SubTask_from_api_response L v = Inl e \<longrightarrow> \<not> isinstance_sdk e c)
   \<and> ((\<forall>k \<in> set Task_fields. map_of d' k = map_of d k)
       \<and> Task_from_api_response L (PDict d) = Inr t \<longrightarrow>
      Task_from_api_response L (PDict d') = Inr t)
   \<and> ((\<forall>k \<in> set SubTask_fields. map_of d' k = map_of d k)
       \<and> SubTask_from_api_response L (PDict d) = Inr st \<longrightarrow>
      SubTask_from_api_response L (PDict d') = Inr st)"
proof (intro conjI impI; (elim conjE)?)
  show "raises_validation (Task_from_api_response L (PDict d))
        \<lparr>err_type = ''missing'', err_loc = [LocField f], err_input = PDict d\<rparr>"
    if "f \<in> {''id'', ''title'', ''created_at'', ''updated_at''}" "map_of d f = None"
    using that by (rule Task_missing)
  show "raises_validation (SubTask_from_api_response L (PDict d))
        \<lparr>err_type = ''missing'', err_loc = [LocField f], err_input = PDict d\<rparr>"
    if "f \<in> {''id'', ''parent_id'', ''title'', ''created_at'', ''updated_at''}" "map_of d f = None"
    using that by (rule SubTask_missing)
  show "raises_validation (Task_from_api_response L (PDict d))
        \<lparr>err_type = ''string_too_short'', err_loc = [LocField ''title''], err_input = PStr []\<rparr>"
    if "map_of d ''title'' = Some (PStr [])"
    using that by (rule Task_out_of_range)
  show "raises_validation (SubTask_from_api_response L (PDict d))
        \<lparr>err_type = ''string_too_short'', err_loc = [LocField ''title''], err_input = PStr []\<rparr>"
    if "map_of d ''title'' = Some (PStr [])"
    using that by (rule SubTask_out_of_range)
  show "raises_validation (Task_from_api_response L (PDict d))
        \<lparr>err_type = ''string_too_long'', err_loc = [LocField ''title''], err_input = PStr s\<rparr>"
    if "map_of d ''title'' = Some (PStr s)" "255 < length s"
    using that by (rule Task_out_of_range)
  show "raises_validation (SubTask_from_api_response L (PDict d))
        \<lparr>err_type = ''string_too_long'', err_loc = [LocField ''title''], err_input = PStr s\<rparr>"
    if "map_of d ''title'' = Some (PStr s)" "255 < length s"
    using that by (rule SubTask_out_of_range)
  show "raises_validation (Task_from_api_response L (PDict d))
        \<lparr>err_type = ''enum'', err_loc = [LocField ''status''], err_input = PStr s\<rparr>"
    if "map_of d ''status'' = Some (PStr s)"
      "s \<notin> {''pending'', ''in-progress'', ''done'', ''deferred'', ''cancelled'', ''blocked''}"
    using that by (rule Task_out_of_range)
  show "raises_validation (Task_from_api_response L (PDict d))
        \<lparr>err_type = ''enum'', err_loc = [LocField ''priority''], err_input = PStr s\<rparr>"
    if "map_of d ''priority'' = Some (PStr s)" "s \<notin> {''low'', ''medium'', ''high'', ''critical''}"
    using that by (rule Task_out_of_range)
  show "SubTask_from_api_response L (PDict ((''status'', PStr s) # d)) = Inr (st\<lparr>st_status := s\<rparr>)"
    if "SubTask_from_api_response L (PDict d) = Inr st"
    using that by (rule SubTask_any_status)
  show "\<exists>errs. errs \<noteq> [] \<and> e = PydanticValidationError errs"
    if "Task_from_api_response L (PDict d) = Inl e"
    using that unfolding Task_from_api_response_def
    by (rule failure_is_pydantic [OF proper_Task_validate])
  show "\<exists>errs. errs \<noteq> [] \<and> e = PydanticValidationError errs"
    if "SubTask_from_api_response L (PDict d) = Inl e"
    using that unfolding SubTask_from_api_response_def
    by (rule failure_is_pydantic [OF proper_SubTask_validate])
  show "\<not> isinstance_sdk e c" if "Task_from_api_response L v = Inl e"
    using that never_sdk_error [of "Task_validate L" v e c]
    by (simp add: Task_from_api_response_def)
  show "\<not> isinstance_sdk e c" if "SubTask_from_api_response L v = Inl e"
    using that never_sdk_error [of "SubTask_validate L" v e c]
    by (simp add: SubTask_from_api_response_def)
  show "Task_from_api_response L (PDict d') = Inr t"
    if "\<forall>k \<in> set Task_fields. map_of d' k = map_of d k" "Task_from_api_response L (PDict d) = Inr t"
    using that by (rule extra_fields_ignored)
  show "SubTask_from_api_response L (PDict d') = Inr st"
    if "\<forall>k \<in> set SubTask_fields. map_of d' k = map_of d k"
      "SubTask_from_api_response L (PDict d) = Inr st"
    using that by (rule extra_fields_ignored)
qed

theorem C3_parsing_failures_witness:
  "raises_validation (Task_from_api_response example_pydantic (PDict [(''id'', PStr ''1'')]))
     \<lparr>err_type = ''missing'', err_loc = [LocField ''title''], err_input = PDict [(''id'', PStr ''1'')]\<rparr>
   \<and> raises_validation
       (SubTask_from_api_response example_pydantic
         (PDict [(''id'', PStr ''1.1''), (''title'', PStr ''Test''), (''status'', PStr ''invalid_status'')]))
       \<lparr>err_type = ''missing'', err_loc = [LocField ''parent_id''],
        err_input = PDict [(''id'', PStr ''1.1''), (''title'', PStr ''Test''), (''status'', PStr ''invalid_status'')]\<rparr>
   \<and> raises_validation
       (Task_from_api_response example_pydantic (PDict [(''id'', PStr ''1''), (''title'', PStr [])]))
       \<lparr>err_type = ''string_too_short'', err_loc = [LocField ''title''], err_input = PStr []\<rparr>
   \<and> raises_validation
       (Task_from_api_response example_pydantic
         (PDict [(''id'', PStr ''1''), (''title'', PStr (replicate 256 CHR ''x''))]))
       \<lparr>err_type = ''string_too_long'', err_loc = [LocField ''title''],
        err_input = PStr (replicate 256 CHR ''x'')\<rparr>
   \<and> raises_validation
       (Task_from_api_response example_pydantic
         (PDict [(''id'', PStr ''1''), (''title'', PStr ''Test''), (''status'', PStr ''invalid_status''),
                 (''priority'', PStr ''invalid_priority'')]))
       \<lparr>err_type = ''enum'', err_loc = [LocField ''status''], err_input = PStr ''invalid_status''\<rparr>
   \<and> raises_validation
       (Task_from_api_response example_pydantic
         (PDict [(''id'', PStr ''1''), (''title'', PStr ''Test''), (''status'', PStr ''invalid_status''),
                 (''priority'', PStr ''invalid_priority'')]))
       \<lparr>err_type = ''enum'', err_loc = [LocField ''priority''], err_input = PStr ''invalid_priority''\<rparr>
   \<and> SubTask_from_api_response example_pydantic
       (PDict ((''status'', PStr ''invalid_status'') # sample_subtask_data))
       = Inr (sample_subtask\<lparr>st_status := ''invalid_status''\<rparr>)
   \<and> \<not> isinstance_sdk
         (PydanticValidationError
           [\<lparr>err_type = ''missing'', err_loc = [LocField ''title''], err_input = PDict [(''id'', PStr ''1'')]\<rparr>,
            \<lparr>err_type = ''missing'', err_loc = [LocField ''created_at''], err_input = PDict [(''id'', PStr ''1'')]\<rparr>,
            \<lparr>err_type = ''missing'', err_loc = [LocField ''updated_at''], err_input = PDict [(''id'', PStr ''1'')]\<rparr>])
         ValidationError
   \<and> Task_from_api_response example_pydantic
       (PDict (sample_task_data @ [(''extra_field'', PStr ''should be ignored'')]))
       = Inr sample_task
   \<and> SubTask_from_api_response example_pydantic
       (PDict ((''extra_field'', PStr ''should be ignored'') # sample_subtask_data))
       = Inr sample_subtask"
proof -
  let ?d1 = "[(''id'', PStr ''1'')]"
  let ?d2 = "[(''id'', PStr ''1.1''), (''title'', PStr ''Test''), (''status'', PStr ''invalid_status'')]"
  let ?d3 = "[(''id'', PStr ''1''), (''title'', PStr [])]"
  let ?d4 = "[(''id'', PStr ''1''), (''title'', PStr (replicate 256 CHR ''x''))]"
  let ?d5 = "[(''id'', PStr ''1''), (''title'', PStr ''Test''), (''status'', PStr ''invalid_status''),
              (''priority'', PStr ''invalid_priority'')]"
  let ?e1 = "PydanticValidationError
           [\<lparr>err_type = ''missing'', err_loc = [LocField ''title''], err_input = PDict [(''id'', PStr ''1'')]\<rparr>,
            \<lparr>err_type = ''missing'', err_loc = [LocField ''created_at''], err_input = PDict [(''id'', PStr ''1'')]\<rparr>,
            \<lparr>err_type = ''missing'', err_loc = [LocField ''updated_at''], err_input = PDict [(''id'', PStr ''1'')]\<rparr>]"
  let ?d12 = "sample_task_data @ [(''extra_field'', PStr ''should be ignored'')]"
  let ?d13 = "(''extra_field'', PStr ''should be ignored'') # sample_subtask_data"
  have a: "\<forall>k \<in> set Task_fields. map_of ?d12 k = map_of sample_task_data k"
    by (simp add: Task_fields_def sample_task_data_def)
  have b: "\<forall>k \<in> set SubTask_fields. map_of ?d13 k = map_of sample_subtask_data k"
    by (simp add: SubTask_fields_def)
  have 1: "raises_validation (Task_from_api_response example_pydantic (PDict ?d1))
     \<lparr>err_type = ''missing'', err_loc = [LocField ''title''], err_input = PDict ?d1\<rparr>"
    using C3_parsing_failures [where L = example_pydantic and f = "''title''" and d = ?d1,
        THEN conjunct1]
    by simp
  have 2: "raises_validation (SubTask_from_api_response example_pydantic (PDict ?d2))
       \<lparr>err_type = ''missing'', err_loc = [LocField ''parent_id''], err_input = PDict ?d2\<rparr>"
    using C3_parsing_failures [where L = example_pydantic and f = "''parent_id''" and d = ?d2,
        THEN conjunct2, THEN conjunct1]
    by simp
  have 3: "raises_validation (Task_from_api_response example_pydantic (PDict ?d3))
       \<lparr>err_type = ''string_too_short'', err_loc = [LocField ''title''], err_input = PStr []\<rparr>"
    using C3_parsing_failures [where L = example_pydantic and d = ?d3,
        THEN conjunct2, THEN conjunct2, THEN conjunct1]
    by simp
  have 4: "raises_validation (Task_from_api_response example_pydantic (PDict ?d4))
       \<lparr>err_type = ''string_too_long'', err_loc = [LocField ''title''],
        err_input = PStr (replicate 256 CHR ''x'')\<rparr>"
    using C3_parsing_failures
       [where L = example_pydantic and d = ?d4 and s = "replicate 256 CHR ''x''",
        THEN conjunct2, THEN conjunct2, THEN conjunct2, THEN conjunct1]
    by simp
  have 5: "raises_validation (Task_from_api_response example_pydantic (PDict ?d5))
       \<lparr>err_type = ''enum'', err_loc = [LocField ''status''], err_input = PStr ''invalid_status''\<rparr>"
    using C3_parsing_failures [where L = example_pydantic and d = ?d5 and s = "''invalid_status''",
        THEN conjunct2, THEN conjunct2, THEN conjunct2, THEN conjunct2, THEN conjunct1]
    by simp
  have 6: "raises_validation (Task_from_api_response example_pydantic (PDict ?d5))
       \<lparr>err_type = ''enum'', err_loc = [LocField ''priority''], err_input = PStr ''invalid_priority''\<rparr>"
    using C3_parsing_failures [where L = example_pydantic and d = ?d5 and s = "''invalid_priority''",
        THEN conjunct2, THEN conjunct2, THEN conjunct2, THEN conjunct2, THEN conjunct2,
        THEN conjunct1]
    by simp
  have 7: "SubTask_from_api_response example_pydantic
       (PDict ((''status'', PStr ''invalid_status'') # sample_subtask_data))
       = Inr (sample_subtask\<lparr>st_status := ''invalid_status''\<rparr>)"
    using C3_parsing_failures
       [where L = example_pydantic and d = sample_subtask_data and st = sample_subtask
          and s = "''invalid_status''",
        THEN conjunct2, THEN conjunct2, THEN conjunct2, THEN conjunct2, THEN conjunct2,
        THEN conjunct2, THEN conjunct1]
      sample_subtask_parses
    by simp
  have 10: "\<not> isinstance_sdk ?e1 ValidationError"
    using C3_parsing_failures
       [where L = example_pydantic and v = "PDict ?d1" and e = ?e1 and c = ValidationError,
        THEN conjunct2, THEN conjunct2, THEN conjunct2, THEN conjunct2, THEN conjunct2,
        THEN conjunct2, THEN conjunct2, THEN conjunct2, THEN conjunct2, THEN conjunct1]
      missing_title_parse
    by simp
  have 12: "Task_from_api_response example_pydantic (PDict ?d12) = Inr sample_task"
    using C3_parsing_failures
       [where L = example_pydantic and d = sample_task_data and t = sample_task and d' = ?d12,
        THEN conjunct2, THEN conjunct2, THEN conjunct2, THEN conjunct2, THEN conjunct2,
        THEN conjunct2, THEN conjunct2, THEN conjunct2, THEN conjunct2, THEN conjunct2,
        THEN conjunct2, THEN conjunct1]
      a sample_task_parses
    by simp
  have 13: "SubTask_from_api_response example_pydantic (PDict ?d13) = Inr sample_subtask"
    using C3_parsing_failures
       [where L = example_pydantic and d = sample_subtask_data and st = sample_subtask
          and d' = ?d13,
        THEN conjunct2, THEN conjunct2, THEN conjunct2, THEN conjunct2, THEN conjunct2,
        THEN conjunct2, THEN conjunct2, THEN conjunct2, THEN conjunct2, THEN conjunct2,
        THEN conjunct2, THEN conjunct2]
      b sample_subtask_parses
    by simp
  show ?thesis
    using 1 2 3 4 5 6 7 10 12 13 by blast
qed

text \<open>
  C3 as stated fails on the type of the error: for \<^verbatim>\<open>Task(id="1")\<close>
  (\<^verbatim>\<open>test_task_validation_missing_title\<close>) the exception raised is pydantic's
  \<^verbatim>\<open>ValidationError\<close>, not the SDK's \<open>ValidationError\<close>.
\<close>

theorem C3_counterexample:
  "Task_from_api_response example_pydantic (PDict [(''id'', PStr ''1'')])
     = Inl (PydanticValidationError
         [\<lparr>err_type = ''missing'', err_loc = [LocField ''title''], err_input = PDict [(''id'', PStr ''1'')]\<rparr>,
          \<lparr>err_type = ''missing'', err_loc = [LocField ''created_at''], err_input = PDict [(''id'', PStr ''1'')]\<rparr>,
          \<lparr>err_type = ''missing'', err_loc = [LocField ''updated_at''], err_input = PDict [(''id'', PStr ''1'')]\<rparr>])
   \<and> \<not> isinstance_sdk
         (PydanticValidationError
           [\<lparr>err_type = ''missing'', err_loc = [LocField ''title''], err_input = PDict [(''id'', PStr ''1'')]\<rparr>,
            \<lparr>err_type = ''missing'', err_loc = [LocField ''created_at''], err_input = PDict [(''id'', PStr ''1'')]\<rparr>,
            \<lparr>err_type = ''missing'', err_loc = [LocField ''updated_at''], err_input = PDict [(''id'', PStr ''1'')]\<rparr>])
         ValidationError"
  by (simp add: Task_from_api_response_def from_api_response_def Task_validate_def
      required_field_def optional_field_def at_loc_def validate_str_def)

subsection \<open>Round trip\<close>

lemma exclude_none_Cons:
  "exclude_none ((k, v) # fs) = (case v of None \<Rightarrow> exclude_none fs | Some x \<Rightarrow> (k, x) # exclude_none fs)"
  by (simp add: exclude_none_def List.map_filter_simps split: option.split)

lemma exclude_none_Nil: "exclude_none [] = []"
  by (simp add: exclude_none_def List.map_filter_simps)

lemma exclude_none_set: "(k, x) \<in> set (exclude_none fs) \<longleftrightarrow> (k, Some x) \<in> set fs"
proof (induction fs)
  case Nil
  show ?case by (simp add: exclude_none_Nil)
next
  case (Cons p fs)
  obtain k' v where p: "p = (k', v)" by (cases p)
  with Cons show ?case by (cases v) (auto simp: exclude_none_Cons)
qed

lemma exclude_none_keys: "fst ` set (exclude_none fs) \<subseteq> fst ` set fs"
  by (force simp: exclude_none_set)

lemma map_of_exclude_none:
  "distinct (map fst fs) \<Longrightarrow>
   map_of (exclude_none fs) k = (case map_of fs k of None \<Rightarrow> None | Some v \<Rightarrow> v)"
proof (induction fs)
  case Nil
  show ?case by (simp add: exclude_none_Nil)
next
  case (Cons p fs)
  obtain k' v where p: "p = (k', v)" by (cases p)
  from Cons.prems p have notin: "k' \<notin> fst ` set fs" and d: "distinct (map fst fs)" by auto
  have "map_of (exclude_none fs) k' = None"
    using exclude_none_keys [of fs] notin by (auto simp: map_of_eq_None_iff)
  with Cons.IH [OF d] show ?case
    by (simp add: p exclude_none_Cons split: option.split)
qed

lemma Task_body:
  "map_of (Task_to_api_request L t) k =
     (case map_of
        [(''id'', Some (PStr (t_id t))),
         (''title'', Some (PStr (t_title t))),
         (''description'', map_option PStr (t_description t)),
         (''status'', Some (PStr (TaskStatus_value (t_status t)))),
         (''priority'', Some (PStr (TaskPriority_value (t_priority t)))),
         (''created_at'', Some (PDatetime (t_created_at t))),
         (''updated_at'', Some (PDatetime (t_updated_at t))),
         (''subtasks'', Some (PList (map (\<lambda>s. PDict (SubTask_to_api_request L s)) (t_subtasks t)))),
         (''project_id'', map_option PStr (t_project_id t)),
         (''account_id'', map_option PStr (t_account_id t)),
         (''metadata'', map_option (\<lambda>m. PDict (serialize_dict L m)) (t_metadata t))] k of
        None \<Rightarrow> None | Some v \<Rightarrow> v)"
  unfolding Task_to_api_request_def by (rule map_of_exclude_none) simp

lemma Task_validate_fields:
  assumes "Task_validate L d = Inr t"
  shows "required_field d ''id'' validate_str = Inr (t_id t)"
    and "required_field d ''title'' (validate_constrained_str 1 255) = Inr (t_title t)"
    and "optional_field d ''description'' None (validate_optional validate_str) = Inr (t_description t)"
    and "optional_field d ''status'' PENDING (validate_enum TaskStatus_members TaskStatus_value)
           = Inr (t_status t)"
    and "optional_field d ''priority'' MEDIUM (validate_enum TaskPriority_members TaskPriority_value)
           = Inr (t_priority t)"
    and "required_field d ''created_at'' (validate_dt L) = Inr (t_created_at t)"
    and "required_field d ''updated_at'' (validate_dt L) = Inr (t_updated_at t)"
    and "optional_field d ''project_id'' None (validate_optional validate_str) = Inr (t_project_id t)"
    and "optional_field d ''account_id'' None (validate_optional validate_str) = Inr (t_account_id t)"
    and "optional_field d ''metadata'' None (validate_optional validate_dict) = Inr (t_metadata t)"
  using assms by (auto simp: Task_validate_def collect_Inr_iff simp del: One_nat_def)

lemma at_loc_Inr: "at_loc l r = Inr x \<longleftrightarrow> r = Inr x"
  by (cases r) (simp_all add: at_loc_def)

lemma required_str_Inr:
  "required_field d k validate_str = Inr s \<Longrightarrow> map_of d k = Some (PStr s)"
  by (auto simp: required_field_def at_loc_Inr validate_str_def split: option.splits pyval.splits)

lemma required_title_Inr:
  "required_field d k (validate_constrained_str lo hi) = Inr s \<Longrightarrow> map_of d k = Some (PStr s)"
  by (auto simp: required_field_def at_loc_Inr validate_constrained_str_def validate_str_def
      split: option.splits pyval.splits if_splits)

lemma optional_str_Inr:
  "optional_field d k None (validate_optional validate_str) = Inr x \<Longrightarrow>
   (case map_of d k of
      None \<Rightarrow> x = None
    | Some v \<Rightarrow> (if v = PNone then x = None else v = PStr (the x) \<and> x \<noteq> None))"
  by (auto simp: optional_field_def at_loc_Inr validate_optional_def validate_str_def
      split: option.splits pyval.splits if_splits)

lemma optional_dict_Inr:
  "optional_field d k None (validate_optional validate_dict) = Inr x \<Longrightarrow>
   map_of d k = None \<or> map_of d k = Some PNone \<Longrightarrow> x = None"
  by (auto simp: optional_field_def at_loc_Inr validate_optional_def
      split: option.splits pyval.splits if_splits)

lemma optional_enum_Inr:
  "optional_field d k dflt (validate_enum members val) = Inr m \<Longrightarrow> map_of d k = Some v \<Longrightarrow>
   v = PStr (val m)"
  by (auto simp: optional_field_def at_loc_Inr validate_enum_def find_Some_iff
      split: option.splits pyval.splits)

lemma required_dt_Inr:
  "required_field d k (validate_dt L) = Inr dt \<Longrightarrow>
   \<exists>v. map_of d k = Some v \<and> validate_datetime L v = Inr dt"
  by (auto simp: required_field_def at_loc_Inr validate_dt_def split: option.splits sum.splits)

text \<open>
  What the round trip keeps. For every Task constructed from a payload by \<open>from_api_response\<close>,
  the body \<open>to_api_request\<close> yields has no entry whose value is \<^verbatim>\<open>None\<close>; it omits
  \<open>description\<close>, \<open>project_id\<close>, \<open>account_id\<close> and \<open>metadata\<close> when the payload leaves
  them out or gives \<^verbatim>\<open>None\<close>; it holds the payload's value unchanged for every present
  string field (\<open>id\<close>, \<open>title\<close>, \<open>description\<close>, \<open>project_id\<close>, \<open>account_id\<close>) and for
  \<open>status\<close> and \<open>priority\<close> (as the enumeration member equal to the payload's string); and
  for \<open>created_at\<close> and \<open>updated_at\<close> it holds the \<^verbatim>\<open>datetime\<close> object that the payload's
  value was parsed to.
\<close>

lemma round_trip_fields:
  assumes "Task_from_api_response L (PDict d) = Inr t"
  shows "(\<forall>k. map_of (Task_to_api_request L t) k \<noteq> Some PNone)
    \<and> (\<forall>k \<in> {''description'', ''project_id'', ''account_id'', ''metadata''}.
          map_of d k = None \<or> map_of d k = Some PNone \<longrightarrow> map_of (Task_to_api_request L t) k = None)
    \<and> (\<forall>k \<in> {''id'', ''title'', ''description'', ''project_id'', ''account_id'', ''status'', ''priority''}.
          \<forall>v. map_of d k = Some v \<and> v \<noteq> PNone \<longrightarrow> map_of (Task_to_api_request L t) k = Some v)
    \<and> (\<forall>k \<in> {''created_at'', ''updated_at''}.
          \<forall>v. map_of d k = Some v \<longrightarrow>
            (\<exists>dt. validate_datetime L v = Inr dt
                  \<and> map_of (Task_to_api_request L t) k = Some (PDatetime dt)))"
proof -
  from assms have v: "Task_validate L d = Inr t"
    by (simp add: Task_from_api_response_def from_api_response_Inr value_of_Some)
  note f = Task_validate_fields [OF v]
  have 0: "\<forall>k. map_of (Task_to_api_request L t) k \<noteq> Some PNone"
    by (auto simp: Task_body split: option.splits if_splits)
  have 1: "\<forall>k \<in> {''description'', ''project_id'', ''account_id'', ''metadata''}.
          map_of d k = None \<or> map_of d k = Some PNone \<longrightarrow> map_of (Task_to_api_request L t) k = None"
    using optional_str_Inr [OF f(3)] optional_str_Inr [OF f(8)] optional_str_Inr [OF f(9)]
      optional_dict_Inr [OF f(10)]
    by (auto simp: Task_body)
  have 2: "\<forall>k \<in> {''id'', ''title'', ''description'', ''project_id'', ''account_id'', ''status'', ''priority''}.
          \<forall>v. map_of d k = Some v \<and> v \<noteq> PNone \<longrightarrow> map_of (Task_to_api_request L t) k = Some v"
    using required_str_Inr [OF f(1)] required_title_Inr [OF f(2)]
      optional_str_Inr [OF f(3)] optional_str_Inr [OF f(8)] optional_str_Inr [OF f(9)]
      optional_enum_Inr [OF f(4)] optional_enum_Inr [OF f(5)]
    by (auto simp: Task_body)
  have 3: "\<forall>k \<in> {''created_at'', ''updated_at''}.
          \<forall>v. map_of d k = Some v \<longrightarrow>
            (\<exists>dt. validate_datetime L v = Inr dt
                  \<and> map_of (Task_to_api_request L t) k = Some (PDatetime dt))"
    using required_dt_Inr [OF f(6)] required_dt_Inr [OF f(7)]
    by (auto simp: Task_body)
  from 0 1 2 3 show ?thesis by blast
qed

lemma null_fields_task_parses:
  "Task_from_api_response example_pydantic (PDict null_fields_task_data) = Inr null_fields_task"
  by (simp add: Task_from_api_response_def from_api_response_def Task_validate_def
      null_fields_task_data_def null_fields_task_def example_pydantic_def required_field_def
      optional_field_def at_loc_def validate_str_def validate_constrained_str_def
      validate_optional_def validate_enum_def TaskStatus_members_def TaskPriority_members_def
      validate_dt_def validate_dict_def validate_SubTask_list_def)

lemma round_trip_examples:
  "Task_from_api_response example_pydantic (PDict sample_task_data) = Inr sample_task
   \<and> map_of (Task_to_api_request example_pydantic sample_task) ''id'' = Some (PStr ''1'')
   \<and> map_of (Task_to_api_request example_pydantic sample_task) ''title''
       = Some (PStr ''Implement user authentication'')
   \<and> map_of (Task_to_api_request example_pydantic sample_task) ''description''
       = Some (PStr ''Set up JWT-based auth system'')
   \<and> map_of (Task_to_api_request example_pydantic sample_task) ''status'' = Some (PStr ''pending'')
   \<and> map_of (Task_to_api_request example_pydantic sample_task) ''priority'' = Some (PStr ''high'')
   \<and> map_of (Task_to_api_request example_pydantic sample_task) ''project_id'' = Some (PStr ''proj-1'')
   \<and> map_of (Task_to_api_request example_pydantic sample_task) ''account_id'' = Some (PStr ''acc-1'')
   \<and> map_of (Task_to_api_request example_pydantic sample_task) ''updated_at''
       = Some (PDatetime (Datetime 1704067200))
   \<and> Task_from_api_response example_pydantic (PDict null_fields_task_data) = Inr null_fields_task
   \<and> map_of (Task_to_api_request example_pydantic null_fields_task) ''description'' = None
   \<and> map_of (Task_to_api_request example_pydantic null_fields_task) ''project_id'' = None
   \<and> map_of (Task_to_api_request example_pydantic null_fields_task) ''account_id'' = None
   \<and> map_of (Task_to_api_request example_pydantic null_fields_task) ''metadata'' = None"
proof -
  note s = round_trip_fields [OF sample_task_parses]
  note n = round_trip_fields [OF null_fields_task_parses]
  have 1: "map_of (Task_to_api_request example_pydantic sample_task) ''id'' = Some (PStr ''1'')
   \<and> map_of (Task_to_api_request example_pydantic sample_task) ''title''
       = Some (PStr ''Implement user authentication'')
   \<and> map_of (Task_to_api_request example_pydantic sample_task) ''description''
       = Some (PStr ''Set up JWT-based auth system'')
   \<and> map_of (Task_to_api_request example_pydantic sample_task) ''status'' = Some (PStr ''pending'')
   \<and> map_of (Task_to_api_request example_pydantic sample_task) ''priority'' = Some (PStr ''high'')
   \<and> map_of (Task_to_api_request example_pydantic sample_task) ''project_id'' = Some (PStr ''proj-1'')
   \<and> map_of (Task_to_api_request example_pydantic sample_task) ''account_id'' = Some (PStr ''acc-1'')"
    using s [THEN conjunct2, THEN conjunct2, THEN conjunct1]
    by (simp add: sample_task_data_def)
  have 2: "map_of (Task_to_api_request example_pydantic sample_task) ''updated_at''
       = Some (PDatetime (Datetime 1704067200))"
    using s [THEN conjunct2, THEN conjunct2, THEN conjunct2]
    by (simp add: sample_task_data_def example_pydantic_def)
  have 3: "map_of (Task_to_api_request example_pydantic null_fields_task) ''description'' = None
   \<and> map_of (Task_to_api_request example_pydantic null_fields_task) ''project_id'' = None
   \<and> map_of (Task_to_api_request example_pydantic null_fields_task) ''account_id'' = None
   \<and> map_of (Task_to_api_request example_pydantic null_fields_task) ''metadata'' = None"
    using n [THEN conjunct2, THEN conjunct1]
    by (simp add: null_fields_task_data_def)
  from 1 2 3 sample_task_parses null_fields_task_parses show ?thesis by blast
qed

text \<open>
  C6. The claim: for every Task constructed from a server payload by
  \<open>from_api_response\<close>, \<open>to_api_request\<close> yields a request body that omits every field
  whose value is \<^verbatim>\<open>None\<close> and keeps every present scalar field unchanged. The code fails
  it on the timestamps: a field declared \<^verbatim>\<open>datetime\<close> holds a \<^verbatim>\<open>datetime\<close> object, and
  \<^verbatim>\<open>model_dump\<close> returns it as it is. Here the payload of the fixture, which gives
  \<open>created_at\<close> and \<open>updated_at\<close> as the string \<^verbatim>\<open>"2024-01-01T00:00:00Z"\<close>: the request
  body of the task parsed from it holds two \<^verbatim>\<open>datetime\<close> objects instead.
\<close>

theorem C6_timestamps_not_kept:
  "Task_from_api_response example_pydantic (PDict sample_task_data) = Inr sample_task
   \<and> map_of sample_task_data ''created_at'' = Some (PStr ''2024-01-01T00:00:00Z'')
   \<and> map_of sample_task_data ''updated_at'' = Some (PStr ''2024-01-01T00:00:00Z'')
   \<and> map_of (Task_to_api_request example_pydantic sample_task) ''created_at''
       = Some (PDatetime (Datetime 1704067200))
   \<and> map_of (Task_to_api_request example_pydantic sample_task) ''updated_at''
       = Some (PDatetime (Datetime 1704067200))
   \<and> map_of (Task_to_api_request example_pydantic sample_task) ''created_at''
       \<noteq> map_of sample_task_data ''created_at''
   \<and> map_of (Task_to_api_request example_pydantic sample_task) ''updated_at''
       \<noteq> map_of sample_task_data ''updated_at''"
  by (simp add: sample_task_parses Task_body)
     (simp add: sample_task_data_def sample_task_def)

subsection \<open>Transport failures\<close>

lemma make_request_transport_failure:
  "make_request C (\<lambda>req. Inl (Requests c m)) meth endpoint data ps
     = Inl (Sdk (TaskMasterError_init TaskMasterError (PStr (''Request failed: '' @ m)) PNone None))"
  by (simp add: make_request_def request_failed_def)

text \<open>
  C1. The claim: for every client operation, a failure of the transport to produce any
  response propagates to the caller as the transport's own exception and is never
  wrapped into the SDK's root error type. The code does the opposite: when
  \<^verbatim>\<open>session.request\<close> raises an exception of class \<open>c\<close> of \<^verbatim>\<open>requests.exceptions\<close> with
  message \<open>m\<close>, every operation raises a \<open>TaskMasterError\<close> "Request failed: m". The last
  conjunct is the input of \<^verbatim>\<open>test_connection_timeout\<close>, which expects \<^verbatim>\<open>requests.Timeout\<close>.
\<close>

theorem C1_transport_failure_is_wrapped:
  "list_tasks C (\<lambda>req. Inl (Requests c m)) L status priority limit offset
     = Inl (Sdk (TaskMasterError_init TaskMasterError (PStr (''Request failed: '' @ m)) PNone None))
   \<and> get_task C (\<lambda>req. Inl (Requests c m)) L task_id
     = Inl (Sdk (TaskMasterError_init TaskMasterError (PStr (''Request failed: '' @ m)) PNone None))
   \<and> create_task C (\<lambda>req. Inl (Requests c m)) L task_data
     = Inl (Sdk (TaskMasterError_init TaskMasterError (PStr (''Request failed: '' @ m)) PNone None))
   \<and> update_task C (\<lambda>req. Inl (Requests c m)) L task_id task_data
     = Inl (Sdk (TaskMasterError_init TaskMasterError (PStr (''Request failed: '' @ m)) PNone None))
   \<and> delete_task C (\<lambda>req. Inl (Requests c m)) task_id
     = Inl (Sdk (TaskMasterError_init TaskMasterError (PStr (''Request failed: '' @ m)) PNone None))
   \<and> list_subtasks C (\<lambda>req. Inl (Requests c m)) L task_id
     = Inl (Sdk (TaskMasterError_init TaskMasterError (PStr (''Request failed: '' @ m)) PNone None))
   \<and> get_subtask C (\<lambda>req. Inl (Requests c m)) L task_id subtask_id
     = Inl (Sdk (TaskMasterError_init TaskMasterError (PStr (''Request failed: '' @ m)) PNone None))
   \<and> create_subtask C (\<lambda>req. Inl (Requests c m)) L task_id subtask_data
     = Inl (Sdk (TaskMasterError_init TaskMasterError (PStr (''Request failed: '' @ m)) PNone None))
   \<and> update_subtask C (\<lambda>req. Inl (Requests c m)) L task_id subtask_id subtask_data
     = Inl (Sdk (TaskMasterError_init TaskMasterError (PStr (''Request failed: '' @ m)) PNone None))
   \<and> delete_subtask C (\<lambda>req. Inl (Requests c m)) task_id subtask_id
     = Inl (Sdk (TaskMasterError_init TaskMasterError (PStr (''Request failed: '' @ m)) PNone None))
   \<and> list_tasks api_client (\<lambda>req. Inl (Requests Timeout ''Connection timeout'')) L None None 50 0
     = Inl (Sdk \<lparr>err_class = TaskMasterError,
                 err_message = PStr ''Request failed: Connection timeout'',
                 err_code = PNone, err_status_code = None, response_data = None\<rparr>)"
  by (simp add: list_tasks_def get_task_def create_task_def update_task_def delete_task_def
      list_subtasks_def get_subtask_def create_subtask_def update_subtask_def delete_subtask_def
      unwrap_list_def unwrap_entity_def make_request_transport_failure TaskMasterError_init_def)

subsection \<open>Status dispatch\<close>

lemma status_dispatch_aux:
  assumes "json_result r = Inr (PDict error_data) \<or> (isl (json_result r) \<and> error_data = [])"
    and "400 \<le> status_code r"
  shows "handle_response_status r =
     (let message = dict_get error_data ''message'' (PStr (reason r));
          code = dict_get error_data ''code'' (PStr ''UNKNOWN'')
      in if status_code r = 400 then Inl (Sdk (BadRequestError_init message (Some error_data)))
         else if status_code r = 401 then Inl (Sdk (AuthenticationError_init AuthenticationError message))
         else if status_code r = 404 then Inl (Sdk (NotFoundError_init message (Some error_data)))
         else if status_code r = 409 then Inl (Sdk (ConflictError_init message (Some error_data)))
         else if status_code r = 429 then Inl (Sdk (RateLimitError_init message (Some error_data)))
         else if status_code r \<ge> 500 then
           (if status_code r = 503 then Inl (Sdk (ServiceUnavailableError_init message (Some error_data)))
            else Inl (Sdk (ServerError_init message (Some error_data))))
         else Inl (Sdk (APIError_init APIError message (status_code r) code (Some error_data))))"
  using assms by (cases "json_result r") (auto simp: handle_response_status_def Let_def)

text \<open>
  When the body of a response with a status of 400 or more is a JSON object, or does
  not parse (and is degraded to \<^verbatim>\<open>{}\<close>), the dispatch is the one of the taxonomy.
\<close>

lemma status_dispatch_on_object_body:
  assumes "json_result r = Inr (PDict error_data) \<or> (isl (json_result r) \<and> error_data = [])"
    and "400 \<le> status_code r"
    and "message = dict_get error_data ''message'' (PStr (reason r))"
  shows "(status_code r = 400 \<longrightarrow>
            handle_response_status r = Inl (Sdk (BadRequestError_init message (Some error_data))))
    \<and> (status_code r = 401 \<longrightarrow>
            handle_response_status r = Inl (Sdk (AuthenticationError_init AuthenticationError message)))
    \<and> (status_code r = 404 \<longrightarrow>
            handle_response_status r = Inl (Sdk (NotFoundError_init message (Some error_data))))
    \<and> (status_code r = 409 \<longrightarrow>
            handle_response_status r = Inl (Sdk (ConflictError_init message (Some error_data))))
    \<and> (status_code r = 429 \<longrightarrow>
            handle_response_status r = Inl (Sdk (RateLimitError_init message (Some error_data))))
    \<and> (status_code r = 503 \<longrightarrow>
            handle_response_status r = Inl (Sdk (ServiceUnavailableError_init message (Some error_data))))
    \<and> (500 \<le> status_code r \<and> status_code r \<noteq> 503 \<longrightarrow>
            handle_response_status r = Inl (Sdk (ServerError_init message (Some error_data))))
    \<and> (status_code r < 500 \<and> status_code r \<notin> {400, 401, 404, 409, 429} \<longrightarrow>
            handle_response_status r
              = Inl (Sdk (APIError_init APIError message (status_code r)
                           (dict_get error_data ''code'' (PStr ''UNKNOWN'')) (Some error_data))))
    \<and> (map_of error_data ''message'' = None \<longrightarrow> message = PStr (reason r))
    \<and> (map_of error_data ''code'' = None \<longrightarrow>
            dict_get error_data ''code'' (PStr ''UNKNOWN'') = PStr ''UNKNOWN'')"
  using status_dispatch_aux [OF assms(1,2)] assms(3)
  by (auto simp: Let_def dict_get_def)

text \<open>
  C2. The claim: every terminal response with a status of 400 or more raises the
  taxonomy class mapped to its status (400 \<open>BadRequestError\<close>, 404 \<open>NotFoundError\<close>, 409
  \<open>ConflictError\<close>, 429 \<open>RateLimitError\<close>, 503 \<open>ServiceUnavailableError\<close>, any other 5xx
  \<open>ServerError\<close>, any other status \<open>APIError\<close> with the code and message of the body).
  The code fails it on an error body that is JSON but not an object: only a body that
  does not parse is degraded to \<^verbatim>\<open>{}\<close>, so \<^verbatim>\<open>error_data.get\<close> raises \<^verbatim>\<open>AttributeError\<close>.
  Here a 404 whose body is the JSON array \<^verbatim>\<open>["Task not found"]\<close>.
\<close>

theorem C2_non_object_error_body:
  "handle_response_status
     \<lparr>status_code = 404, reason = ''Not Found'',
      json_result = Inr (PList [PStr ''Task not found''])\<rparr>
     = Inl (Builtin AttributeError (quoted ''list'' @ '' object has no attribute '' @ quoted ''get''))
   \<and> get_task C
       (\<lambda>req. Inr \<lparr>status_code = 404, reason = ''Not Found'',
                    json_result = Inr (PList [PStr ''Task not found''])\<rparr>) L ''nonexistent''
     = Inl (Builtin AttributeError (quoted ''list'' @ '' object has no attribute '' @ quoted ''get''))
   \<and> \<not> isinstance_sdk
         (Builtin AttributeError (quoted ''list'' @ '' object has no attribute '' @ quoted ''get''))
         NotFoundError"
  by (simp add: handle_response_status_def no_attribute_get_def get_task_def unwrap_entity_def
      make_request_def request_failed_def)

subsection \<open>Delete operations\<close>

lemma make_request_response:
  "S (build_request C m endpoint data ps) = Inr r \<Longrightarrow> status_code r < 400 \<Longrightarrow>
   make_request C S m endpoint data ps
     = (case json_result r of Inl e \<Rightarrow> Inl (request_failed e) | Inr v \<Rightarrow> Inr v)"
  by (simp add: make_request_def handle_response_status_def)

text \<open>
  When the terminal response of \<open>delete_task\<close> or \<open>delete_subtask\<close> has a
  status below 400 and its body parses as JSON, the operation returns \<open>True\<close>, whatever
  the JSON value is. When the body is absent or not JSON, \<^verbatim>\<open>response.json()\<close> raises and
  so does the operation: a \<open>TaskMasterError\<close> when the exception is a
  \<^verbatim>\<open>RequestException\<close>, the exception itself otherwise. Neither operation ever returns
  \<open>False\<close>.
\<close>

lemma delete_returns_True:
  "(S (build_request C ''DELETE'' (''/tasks/'' @ task_id) None None) = Inr r \<and> status_code r < 400
      \<longrightarrow> delete_task C S task_id
            = (case json_result r of Inl e \<Rightarrow> Inl (request_failed e) | Inr body \<Rightarrow> Inr True))
   \<and> (S (build_request C ''DELETE'' (''/tasks/'' @ task_id @ ''/subtasks/'' @ subtask_id) None None) = Inr r'
       \<and> status_code r' < 400
      \<longrightarrow> delete_subtask C S task_id subtask_id
            = (case json_result r' of Inl e \<Rightarrow> Inl (request_failed e) | Inr body \<Rightarrow> Inr True))
   \<and> delete_task C S task_id \<noteq> Inr False
   \<and> delete_subtask C S task_id subtask_id \<noteq> Inr False"
  by (auto simp: delete_task_def delete_subtask_def make_request_response split: sum.splits)

lemma delete_returns_True_examples:
  "delete_task api_client
     (\<lambda>req. Inr \<lparr>status_code = 200, reason = ''OK'',
                  json_result = Inr (PDict [(''status'', PStr ''success'')])\<rparr>) ''1'' = Inr True
   \<and> delete_subtask api_client
     (\<lambda>req. Inr \<lparr>status_code = 200, reason = ''OK'', json_result = Inr PNone\<rparr>) ''1'' ''1.1''
       = Inr True"
  using delete_returns_True
    [of "\<lambda>req. Inr \<lparr>status_code = 200, reason = ''OK'',
                      json_result = Inr (PDict [(''status'', PStr ''success'')])\<rparr>"
        api_client "''1''"
        "\<lparr>status_code = 200, reason = ''OK'', json_result = Inr (PDict [(''status'', PStr ''success'')])\<rparr>"]
    delete_returns_True
    [of "\<lambda>req. Inr \<lparr>status_code = 200, reason = ''OK'', json_result = Inr PNone\<rparr>"
        api_client "''1''" _ "''1.1''"
        "\<lparr>status_code = 200, reason = ''OK'', json_result = Inr PNone\<rparr>"]
  by simp

text \<open>
  C7. The claim: \<open>delete_task\<close> and \<open>delete_subtask\<close> return \<open>True\<close> whenever the terminal
  response has a status below 400, whatever its body, an absent or non-JSON body
  included, and never return \<open>False\<close>. The code fails it on a successful response
  without a body: \<^verbatim>\<open>_make_request\<close> ends with \<^verbatim>\<open>response.json()\<close> for every method. Here a
  204 No Content, whose \<^verbatim>\<open>response.json()\<close> raises \<^verbatim>\<open>requests.exceptions.JSONDecodeError\<close>:
  both operations raise \<open>TaskMasterError\<close>. (Where \<^verbatim>\<open>response.json()\<close> raises a plain
  \<^verbatim>\<open>ValueError\<close>, as in \<^verbatim>\<open>test_malformed_json_response\<close>, they raise that.)
\<close>

theorem C7_delete_raises_without_body:
  "status_code \<lparr>status_code = 204, reason = ''No Content'',
                 json_result = Inl (Requests JSONDecodeError ''Expecting value: line 1 column 1 (char 0)'')\<rparr> < 400
   \<and> delete_task api_client
       (\<lambda>req. Inr \<lparr>status_code = 204, reason = ''No Content'',
                    json_result = Inl (Requests JSONDecodeError ''Expecting value: line 1 column 1 (char 0)'')\<rparr>)
       ''1''
     = Inl (Sdk \<lparr>err_class = TaskMasterError,
                 err_message = PStr ''Request failed: Expecting value: line 1 column 1 (char 0)'',
                 err_code = PNone, err_status_code = None, response_data = None\<rparr>)
   \<and> delete_subtask api_client
       (\<lambda>req. Inr \<lparr>status_code = 204, reason = ''No Content'',
                    json_result = Inl (Requests JSONDecodeError ''Expecting value: line 1 column 1 (char 0)'')\<rparr>)
       ''1'' ''1.1''
     = Inl (Sdk \<lparr>err_class = TaskMasterError,
                 err_message = PStr ''Request failed: Expecting value: line 1 column 1 (char 0)'',
                 err_code = PNone, err_status_code = None, response_data = None\<rparr>)
   \<and> delete_task api_client
       (\<lambda>req. Inr \<lparr>status_code = 204, reason = ''No Content'',
                    json_result = Inl (Requests JSONDecodeError ''Expecting value: line 1 column 1 (char 0)'')\<rparr>)
       ''1''
     \<noteq> Inr True
   \<and> delete_task api_client
       (\<lambda>req. Inr \<lparr>status_code = 204, reason = ''No Content'',
                    json_result = Inl (Builtin ValueError ''Invalid JSON'')\<rparr>)
       ''1''
     = Inl (Builtin ValueError ''Invalid JSON'')"
  by (simp add: delete_task_def delete_subtask_def make_request_def handle_response_status_def
      request_failed_def TaskMasterError_init_def)

subsection \<open>Retry policy\<close>

lemma send_not_retried:
  "\<not> is_retry cfg (http_method req) (N req i) \<Longrightarrow> send cfg N req i k = (terminal (N req i), Suc i)"
  by (cases k) simp_all

lemma send_retried:
  "Suc i < snd (send cfg N req i k) \<Longrightarrow> is_retry cfg (http_method req) (N req i)"
  by (cases k) (auto split: if_splits)

lemma send_attempts: "i < snd (send cfg N req i k) \<and> snd (send cfg N req i k) \<le> Suc (i + k)"
proof (induction k arbitrary: i)
  case 0
  show ?case by simp
next
  case (Suc k)
  from Suc [of "Suc i"] show ?case by auto
qed

text \<open>
  In the model of the transport's loop, with the strategy \<^verbatim>\<open>_setup_session\<close> mounts: a
  first response with status 400, 401, 404 or 409 is terminal after one transmission;
  a second transmission happens only for an allowed method after no response or a
  status of the list; and at most \<open>max_retries\<close> transmissions follow the first.
\<close>

lemma retry_policy:
  "(N req 0 = Response r \<and> status_code r \<in> {400, 401, 404, 409}
      \<longrightarrow> session_send C N req = (Inr r, 1))
   \<and> (1 < snd (session_send C N req)
      \<longrightarrow> http_method req \<in> {''GET'', ''POST'', ''PUT'', ''PATCH'', ''DELETE''}
          \<and> (case N req 0 of
                NoResponse c m \<Rightarrow> True
              | Response r \<Rightarrow> status_code r \<in> {429, 500, 502, 503, 504}))
   \<and> 1 \<le> snd (session_send C N req)
   \<and> int (snd (session_send C N req)) - 1 \<le> max 0 (max_retries C)"
proof -
  have a: "session_send C N req = (Inr r, 1)"
    if "N req 0 = Response r" "status_code r \<in> {400, 401, 404, 409}"
  proof -
    from that have "\<not> is_retry (retry_strategy C) (http_method req) (N req 0)"
      by (auto simp: is_retry_def retry_strategy_def)
    then show ?thesis
      using that by (simp add: session_send_def send_not_retried terminal_def)
  qed
  have b: "http_method req \<in> {''GET'', ''POST'', ''PUT'', ''PATCH'', ''DELETE''}
          \<and> (case N req 0 of
                NoResponse c m \<Rightarrow> True
              | Response r \<Rightarrow> status_code r \<in> {429, 500, 502, 503, 504})"
    if "1 < snd (session_send C N req)"
  proof -
    from that have "is_retry (retry_strategy C) (http_method req) (N req 0)"
      unfolding session_send_def by (intro send_retried) simp
    then show ?thesis
      by (auto simp: is_retry_def retry_strategy_def split: attempt.splits)
  qed
  have c: "1 \<le> snd (session_send C N req)
     \<and> int (snd (session_send C N req)) - 1 \<le> max 0 (max_retries C)"
    using send_attempts [of 0 "retry_strategy C" N req "nat (total (retry_strategy C))"]
    by (auto simp: session_send_def retry_strategy_def)
  from a b c show ?thesis by blast
qed

text \<open>
  C4. The claim: a response with status 400, 401, 404 or 409 is terminal on the first
  response and never sent again, a 401 raising an authentication error on the first
  attempt, and only a failure of the connection or a status of the strategy's list is
  retried, at most \<open>max_retries\<close> times. In the model of the transport's loop a 401 is
  indeed terminal after one transmission, but what the pipeline raises for it is an
  authentication error only when the body is a JSON object or does not parse: for a
  401 whose body is the JSON string \<^verbatim>\<open>"Authentication failed"\<close> the first attempt raises
  \<^verbatim>\<open>AttributeError\<close> (the defect of C2).
\<close>

theorem C4_unauthorized_non_object_body:
  "session_send api_client
     (\<lambda>req i. Response \<lparr>status_code = 401, reason = ''Unauthorized'',
                          json_result = Inr (PStr ''Authentication failed'')\<rparr>) req
     = (Inr \<lparr>status_code = 401, reason = ''Unauthorized'',
             json_result = Inr (PStr ''Authentication failed'')\<rparr>, 1)
   \<and> list_tasks api_client
       (session_request api_client
          (\<lambda>req i. Response \<lparr>status_code = 401, reason = ''Unauthorized'',
                               json_result = Inr (PStr ''Authentication failed'')\<rparr>))
       L None None 50 0
     = Inl (Builtin AttributeError (quoted ''str'' @ '' object has no attribute '' @ quoted ''get''))
   \<and> \<not> isinstance_sdk
         (Builtin AttributeError (quoted ''str'' @ '' object has no attribute '' @ quoted ''get''))
         AuthenticationError"
proof -
  have s: "session_send api_client
     (\<lambda>req i. Response \<lparr>status_code = 401, reason = ''Unauthorized'',
                          json_result = Inr (PStr ''Authentication failed'')\<rparr>) req
     = (Inr \<lparr>status_code = 401, reason = ''Unauthorized'',
             json_result = Inr (PStr ''Authentication failed'')\<rparr>, 1)" for req
    by (simp add: session_send_def retry_strategy_def api_client_def is_retry_def terminal_def
        eval_nat_numeral)
  show ?thesis
    by (simp add: s session_request_def list_tasks_def unwrap_list_def make_request_def
        handle_response_status_def no_attribute_get_def request_failed_def)
qed

subsection \<open>Token expiry\<close>

lemma expired_is_invalid:
  "jwt_issubclass c jwt_ExpiredSignatureError \<Longrightarrow> jwt_issubclass c jwt_InvalidTokenError"
  by (cases c) (simp_all add: jwt_issubclass_def)

lemma is_expired_cases:
  "is_expired J h tok =
     (case J tok (secret h) (algorithms h) True of
        Inr payload \<Rightarrow> Inr False
      | Inl (c, m) \<Rightarrow> if jwt_issubclass c jwt_InvalidTokenError then Inr True else Inl (Jwt c m))"
  by (auto simp: is_expired_def expired_is_invalid split: sum.split prod.split)

text \<open>
  For a failure of the token, whatever it is (expiry, signature mismatch, malformed
  token), \<open>is_expired\<close> returns \<open>True\<close>, and it returns \<open>False\<close> exactly for a token that
  decodes with verification.
\<close>

lemma is_expired_token_failure:
  "(J tok (secret h) (algorithms h) True = Inl (c, m) \<and> jwt_issubclass c jwt_InvalidTokenError
      \<longrightarrow> is_expired J h tok = Inr True)
   \<and> (is_expired J h tok = Inr False
        \<longleftrightarrow> (\<exists>payload. J tok (secret h) (algorithms h) True = Inr payload))"
  by (cases "J tok (secret h) (algorithms h) True") (auto simp: is_expired_cases split: if_splits)

text \<open>
  C9. The claim: for every token, \<open>is_expired\<close> returns a boolean and never raises,
  \<open>True\<close> whenever the decoding fails for any reason and \<open>False\<close> only for a token that
  decodes and is unexpired. The code fails it when \<^verbatim>\<open>jwt.decode\<close> raises
  \<^verbatim>\<open>jwt.InvalidKeyError\<close>: the class derives from \<^verbatim>\<open>jwt.PyJWTError\<close> and not from
  \<^verbatim>\<open>jwt.InvalidTokenError\<close>, so neither \<^verbatim>\<open>except\<close> clause catches it, and \<open>is_expired\<close>
  raises it and returns no boolean. The witness is a handler for HS256 and RS256
  tokens whose key is an RSA public key, given a token whose header names HS256.
\<close>

theorem C9_is_expired_raises:
  assumes "J tok (secret h) (algorithms h) True = Inl (jwt_InvalidKeyError, m)"
  shows "is_expired J h tok = Inl (Jwt jwt_InvalidKeyError m)
         \<and> (\<forall>b. is_expired J h tok \<noteq> Inr b)"
  using assms by (simp add: is_expired_def jwt_issubclass_def)

theorem C9_is_expired_raises_witness:
  "example_jwt ''valid.token.secret1'' rsa_public_key [''HS256'', ''RS256''] True
     = Inl (jwt_InvalidKeyError,
            ''The specified key is an asymmetric key or x509 certificate and should not be used as an HMAC secret.'')
   \<and> is_expired example_jwt (JWTHandler_init rsa_public_key (Some [''HS256'', ''RS256'']) True)
       ''valid.token.secret1''
     = Inl (Jwt jwt_InvalidKeyError
            ''The specified key is an asymmetric key or x509 certificate and should not be used as an HMAC secret.'')"
  using C9_is_expired_raises
    [of example_jwt "''valid.token.secret1''"
        "JWTHandler_init rsa_public_key (Some [''HS256'', ''RS256'']) True"
        "''The specified key is an asymmetric key or x509 certificate and should not be used as an HMAC secret.''"]
  by (simp add: example_jwt_def JWTHandler_init_def rsa_public_key_def)



end
